theory Spec2Isabelle
  imports Complex_Main "HOL-Library.AList"
begin

section \<open>Shared conventions\<close>

text \<open>
  The development embeds two modules of the repository: the IP failover manager
  (\<^verbatim>\<open>ip_failover_manager.py\<close>) and the stream health checker
  (\<^verbatim>\<open>stream_health_checker.py\<close>).

  \<^item> Python objects with fields are records, dictionaries are association lists in
    insertion order (\<open>map_of\<close> reads, \<open>AList.update\<close> writes: an existing key keeps
    its place, a new key goes to the end, as in a Python \<^verbatim>\<open>dict\<close>), Python sets are
    HOL sets.
  \<^item> Exceptions are values of \<open>exn\<close>; a function that can raise returns \<open>exn + 'a\<close>.
    Every constructor of \<open>exn\<close> stands for a subclass of Python's \<^verbatim>\<open>Exception\<close>,
    so an \<^verbatim>\<open>except Exception\<close> clause catches all of them.
  \<^item> \<^verbatim>\<open>datetime\<close> values are integers (microseconds), \<^verbatim>\<open>time.time()\<close>
    readings and durations are real numbers (seconds); floating-point rounding is not
    modelled.
  \<^item> The network, the clock, MD5, \<^verbatim>\<open>urlparse\<close> and \<^verbatim>\<open>int()\<close> on a header
    are not code of the repository: they are parameters of the functions that use them.
\<close>

datatype exn =
    KeyError string
  | IndexError
  | AttributeError
  | ValueError string
  | RecursionError
  | TimeoutError
  | ClientError string
  | OtherException string

text \<open>\<^verbatim>\<open>str(e)\<close>; the texts of the interpreter's own exceptions are abbreviated.\<close>

fun str_exn :: "exn \<Rightarrow> string" where
  "str_exn (KeyError k) = k"
| "str_exn IndexError = ''list index out of range''"
| "str_exn AttributeError = ''NoneType object has no attribute head''"
| "str_exn (ValueError m) = m"
| "str_exn RecursionError = ''maximum recursion depth exceeded''"
| "str_exn TimeoutError = ''''"
| "str_exn (ClientError m) = m"
| "str_exn (OtherException m) = m"

type_synonym datetime = int

definition timedelta_minutes :: "int \<Rightarrow> int" where
  "timedelta_minutes n = n * 60000000"

text \<open>
  One HTTP exchange as the environment answers it: how long the answer takes and what it
  is (a response, or the exception the client library raises). A request made with a
  total timeout \<open>Some t\<close> raises \<open>TimeoutError\<close> when the answer takes longer than \<open>t\<close>
  seconds; a request made with no timeout waits for the answer. \<open>duration\<close> is the time
  the request takes for its caller.
\<close>

record http_response =
  resp_status :: nat
  resp_content_type :: string
  resp_body :: string
  resp_headers :: "(string \<times> string) list"

record reply =
  elapsed :: real
  outcome :: "exn + http_response"

definition duration :: "real option \<Rightarrow> reply \<Rightarrow> real" where
  "duration budget r = (case budget of Some t \<Rightarrow> min t (elapsed r) | None \<Rightarrow> elapsed r)"

definition request :: "real option \<Rightarrow> reply \<Rightarrow> exn + http_response" where
  "request budget r =
     (case budget of
        Some t \<Rightarrow> if t < elapsed r then Inl TimeoutError else outcome r
      | None \<Rightarrow> outcome r)"

section \<open>The IP failover manager\<close>

subsection \<open>Data model\<close>

record IPSession =
  ip_address :: string
  user_id :: string
  provider_name :: string
  failover_tier :: int
  session_start :: datetime
  last_activity :: datetime
  channels_accessed :: "string set"
  connection_count :: int

text \<open>
  \<open>xtream_config\<close> is an optional dictionary; \<open>None\<close> and the empty dictionary are both
  false in a condition. \<open>health_status\<close> is a string, as in the source.
\<close>

record FailoverProvider =
  name :: string
  tier :: int
  m3u_url :: string
  xtream_config :: "(string \<times> string) list option"
  max_concurrent_ips :: int
  active_ips :: "string set"
  health_status :: string
  last_health_check :: "datetime option"

record failover_event =
  ev_ip_address :: string
  ev_user_id :: string
  from_provider :: string
  to_provider :: string
  reason :: string

text \<open>
  The manager's state: the provider table in registration order, the session table, and
  the audit database as the two lists of rows the code inserts (\<open>ip_sessions\<close> has an
  auto-increment key and no uniqueness constraint, so every \<^verbatim>\<open>INSERT OR REPLACE\<close>
  adds a row). Database failures are not modelled. The fields
  \<^verbatim>\<open>ip_to_provider_mapping\<close> and \<^verbatim>\<open>monitoring_active\<close> are never read by the
  functions below and are left out.
\<close>

record manager =
  providers :: "(string \<times> FailoverProvider) list"
  active_sessions :: "(string \<times> IPSession) list"
  db_sessions :: "IPSession list"
  db_failover_events :: "failover_event list"

text \<open>The environment of one operation of the manager.\<close>

text \<open>
  \<open>md5_int\<close> is \<^verbatim>\<open>int(hashlib.md5(s.encode()).hexdigest(), 16)\<close>, \<open>valid_ip\<close> is
  whether \<^verbatim>\<open>ipaddress.ip_address\<close> accepts a string, \<open>http_get\<close> is the answer of the
  network to a GET of a URL during this operation, and \<open>default_total\<close> is the total
  timeout of a client session that the source creates without one (the client library's
  default).
\<close>

record env =
  md5_int :: "string \<Rightarrow> nat"
  valid_ip :: "string \<Rightarrow> bool"
  http_get :: "string \<Rightarrow> reply"
  default_total :: "real option"

definition getitem :: "(string \<times> 'a) list \<Rightarrow> string \<Rightarrow> exn + 'a" where
  "getitem d k = (case map_of d k of None \<Rightarrow> Inl (KeyError k) | Some v \<Rightarrow> Inr v)"

definition occupancy :: "FailoverProvider \<Rightarrow> int" where
  "occupancy p = int (card (active_ips p))"

subsection \<open>Provider selection\<close>

text \<open>
  \<^verbatim>\<open>determine_failover_provider\<close>, lines 269 to 296. \<open>sticky_choice\<close> is the first
  \<^verbatim>\<open>if\<close>: \<open>Inr (Some n)\<close> when it returns \<open>n\<close>, \<open>Inr None\<close> when control falls
  through to the search, \<open>Inl\<close> when the provider lookup raises.
\<close>

definition sticky_choice :: "manager \<Rightarrow> string \<Rightarrow> exn + string option" where
  "sticky_choice m ip =
     (case map_of (active_sessions m) ip of
        None \<Rightarrow> Inr None
      | Some session \<Rightarrow>
          (case getitem (providers m) (provider_name session) of
             Inl e \<Rightarrow> Inl e
           | Inr provider \<Rightarrow>
               if health_status provider = ''healthy''
                  \<and> occupancy provider \<le> max_concurrent_ips provider
               then Inr (Some (provider_name session))
               else Inr None))"

definition sorted_providers :: "manager \<Rightarrow> FailoverProvider list" where
  "sorted_providers m = sort_key tier (map snd (providers m))"

definition available :: "FailoverProvider \<Rightarrow> bool" where
  "available p \<longleftrightarrow>
     (health_status p = ''healthy'' \<or> health_status p = ''unknown'')
     \<and> occupancy p < max_concurrent_ips p"

definition best_available :: "env \<Rightarrow> manager \<Rightarrow> string \<Rightarrow> exn + string" where
  "best_available e m ip =
     (case find available (sorted_providers m) of
        Some provider \<Rightarrow> Inr (name provider)
      | None \<Rightarrow>
          (case sorted_providers m of
             [] \<Rightarrow> Inl IndexError
           | p0 # _ \<Rightarrow>
               (let lowest_tier_providers = filter (\<lambda>p. tier p = tier p0) (sorted_providers m);
                    ip_hash = md5_int e ip
                in Inr (name (lowest_tier_providers ! (ip_hash mod length lowest_tier_providers))))))"

definition determine_failover_provider :: "env \<Rightarrow> manager \<Rightarrow> string \<Rightarrow> string \<Rightarrow> exn + string" where
  "determine_failover_provider e m ip uid =
     (case sticky_choice m ip of
        Inl err \<Rightarrow> Inl err
      | Inr (Some n) \<Rightarrow> Inr n
      | Inr None \<Rightarrow> best_available e m ip)"


subsection \<open>Strings\<close>

text \<open>
  \<^verbatim>\<open>str.strip()\<close> removes white space at both ends (the ASCII white space of
  \<^verbatim>\<open>str.isspace\<close>), \<^verbatim>\<open>str.split(sep)\<close> cuts at every separator character and
  always returns at least one piece, \<^verbatim>\<open>startswith\<close> and \<^verbatim>\<open>in\<close> are prefix and
  substring tests, \<^verbatim>\<open>str(n)\<close> is the decimal numeral of an integer.
\<close>

definition is_space :: "char \<Rightarrow> bool" where
  "is_space c \<longleftrightarrow>
     c \<in> set [CHR 0x09, CHR 0x0A, CHR 0x0B, CHR 0x0C, CHR 0x0D,
              CHR 0x1C, CHR 0x1D, CHR 0x1E, CHR 0x1F, CHR 0x20]"

definition strip :: "string \<Rightarrow> string" where
  "strip s = rev (dropWhile is_space (rev (dropWhile is_space s)))"

fun split :: "char \<Rightarrow> string \<Rightarrow> string list" where
  "split sep [] = [[]]"
| "split sep (c # cs) =
     (if c = sep then [] # split sep cs
      else (case split sep cs of w # ws \<Rightarrow> (c # w) # ws | [] \<Rightarrow> [[c]]))"

definition startswith :: "string \<Rightarrow> string \<Rightarrow> bool" where
  "startswith p s \<longleftrightarrow> take (length p) s = p"

fun contains :: "string \<Rightarrow> string \<Rightarrow> bool" where
  "contains sub [] = (sub = [])"
| "contains sub (c # cs) = (startswith sub (c # cs) \<or> contains sub cs)"

fun str_nat :: "nat \<Rightarrow> string" where
  "str_nat n =
     (if n < 10 then [char_of (48 + n)]
      else str_nat (n div 10) @ [char_of (48 + n mod 10)])"

declare str_nat.simps [simp del]

definition str_int :: "int \<Rightarrow> string" where
  "str_int i = (if i < 0 then CHR ''-'' # str_nat (nat (- i)) else str_nat (nat i))"

subsection \<open>Requests and responses of the web application\<close>

text \<open>
  An incoming request: its headers (looked up by the spelling the source uses), the peer
  address and the route parameters.
\<close>

record stream_request =
  req_headers :: "(string \<times> string) list"
  remote :: string
  match_info :: "(string \<times> string) list"

record web_response =
  web_status :: nat
  web_body :: string
  web_content_type :: string
  web_headers :: "(string \<times> string) list"

definition text_response :: "nat \<Rightarrow> string \<Rightarrow> web_response" where
  "text_response code txt =
     \<lparr>web_status = code, web_body = txt, web_content_type = ''text/plain'', web_headers = []\<rparr>"

text \<open>\<^verbatim>\<open>get_client_ip\<close>, lines 244 to 267.\<close>

fun first_valid_header :: "env \<Rightarrow> stream_request \<Rightarrow> string list \<Rightarrow> string option" where
  "first_valid_header e rq [] = None"
| "first_valid_header e rq (header # rest) =
     (case map_of (req_headers rq) header of
        None \<Rightarrow> first_valid_header e rq rest
      | Some v \<Rightarrow>
          if v = [] then first_valid_header e rq rest
          else (let ip = strip (hd (split CHR '','' v))
                in if valid_ip e ip then Some ip else first_valid_header e rq rest))"

definition get_client_ip :: "env \<Rightarrow> stream_request \<Rightarrow> string" where
  "get_client_ip e rq =
     (case first_valid_header e rq
             [''X-Forwarded-For'', ''X-Real-IP'', ''X-Client-IP'', ''CF-Connecting-IP''] of
        Some ip \<Rightarrow> ip
      | None \<Rightarrow> remote rq)"

subsection \<open>Resolving a channel to a stream URL\<close>

text \<open>\<^verbatim>\<open>get_channel_stream_from_m3u\<close>, lines 422 to 449. Every exception is caught there.\<close>

fun scan_extinf :: "string \<Rightarrow> string list \<Rightarrow> string option" where
  "scan_extinf cid [] = None"
| "scan_extinf cid (line # rest) =
     (if startswith ''#EXTINF:'' line \<and> contains cid line \<and> rest \<noteq> []
      then Some (strip (hd rest))
      else scan_extinf cid rest)"

definition get_channel_stream_from_m3u :: "env \<Rightarrow> string \<Rightarrow> string \<Rightarrow> string option" where
  "get_channel_stream_from_m3u e url cid =
     (case request (default_total e) (http_get e url) of
        Inl err \<Rightarrow> None
      | Inr resp \<Rightarrow>
          if resp_status resp = 200 then
            (let lines = split CHR 0x0A (resp_body resp)
             in case scan_extinf cid lines of
                  Some u \<Rightarrow> Some u
                | None \<Rightarrow>
                    (let stream_lines =
                           map strip (filter (\<lambda>l. strip l \<noteq> [] \<and> \<not> startswith ''#'' l) lines)
                     in if stream_lines \<noteq> []
                        then Some (stream_lines ! (md5_int e cid mod length stream_lines))
                        else None))
          else None)"

definition xtream_stream_url :: "(string \<times> string) list \<Rightarrow> string \<Rightarrow> exn + string" where
  "xtream_stream_url cfg cid =
     (case getitem cfg ''server_url'' of
        Inl err \<Rightarrow> Inl err
      | Inr server \<Rightarrow>
          (case getitem cfg ''username'' of
             Inl err \<Rightarrow> Inl err
           | Inr user \<Rightarrow>
               (case getitem cfg ''password'' of
                  Inl err \<Rightarrow> Inl err
                | Inr pw \<Rightarrow>
                    Inr (server @ ''/live/'' @ user @ ''/'' @ pw @ ''/'' @ cid @ ''.m3u8''))))"

text \<open>
  The \<^verbatim>\<open>if provider.xtream_config: ... else: ...\<close> that both request paths contain
  (an empty dictionary counts as absent): the URL, \<open>None\<close> for no URL, or the \<open>KeyError\<close>
  of an incomplete configuration.
\<close>

definition truthy_config :: "FailoverProvider \<Rightarrow> (string \<times> string) list option" where
  "truthy_config p =
     (case xtream_config p of None \<Rightarrow> None | Some cfg \<Rightarrow> if cfg = [] then None else Some cfg)"

definition stream_url_for :: "env \<Rightarrow> FailoverProvider \<Rightarrow> string \<Rightarrow> exn + string option" where
  "stream_url_for e p cid =
     (case truthy_config p of
        Some cfg \<Rightarrow>
          (case xtream_stream_url cfg cid of
             Inl err \<Rightarrow> Inl err
           | Inr u \<Rightarrow> Inr (Some u))
      | None \<Rightarrow> Inr (get_channel_stream_from_m3u e (m3u_url p) cid))"

text \<open>\<^verbatim>\<open>if stream_url:\<close> holds for a non-empty string only.\<close>

definition nonempty_url :: "string option \<Rightarrow> string option" where
  "nonempty_url u = (case u of None \<Rightarrow> None | Some s \<Rightarrow> if s = [] then None else Some s)"


subsection \<open>Escalation\<close>

definition log_failover_event ::
  "string \<Rightarrow> string \<Rightarrow> string \<Rightarrow> string \<Rightarrow> string \<Rightarrow> manager \<Rightarrow> manager" where
  "log_failover_event ip uid src dst why m =
     m\<lparr>db_failover_events := db_failover_events m @
          [\<lparr>ev_ip_address = ip, ev_user_id = uid, from_provider = src, to_provider = dst,
            reason = why\<rparr>]\<rparr>"

definition add_active_ip ::
  "string \<Rightarrow> string \<Rightarrow> (string \<times> FailoverProvider) list \<Rightarrow> (string \<times> FailoverProvider) list" where
  "add_active_ip key ip ps =
     AList.map_entry key (\<lambda>p. p\<lparr>active_ips := insert ip (active_ips p)\<rparr>) ps"

text \<open>
  One turn of the loop of \<^verbatim>\<open>try_failover_stream\<close> (lines 383 to 414), the body of its
  \<^verbatim>\<open>try\<close>: \<open>Inr (Some r)\<close> when it returns the response \<open>r\<close>, \<open>Inr None\<close> when it
  ends without returning, \<open>Inl\<close> when it raises. A provider object is one entry of the
  provider table, so it comes with its key; the session is given the provider's
  \<open>name\<close> field.
\<close>

definition failover_attempt ::
  "env \<Rightarrow> string \<Rightarrow> string \<Rightarrow> string \<Rightarrow> string \<times> FailoverProvider \<Rightarrow> manager
     \<Rightarrow> manager \<times> (exn + web_response option)" where
  "failover_attempt e ip uid cid kp m =
     (let key = fst kp; provider = snd kp
      in case stream_url_for e provider cid of
           Inl err \<Rightarrow> (m, Inl err)
         | Inr stream_url \<Rightarrow>
             (case nonempty_url stream_url of
                None \<Rightarrow> (m, Inr None)
              | Some url \<Rightarrow>
               (case request (Some 10) (http_get e url) of
                  Inl err \<Rightarrow> (m, Inl err)
                | Inr resp \<Rightarrow>
                    if resp_status resp = 200 then
                      (case map_of (active_sessions m) ip of
                         None \<Rightarrow> (m, Inl (KeyError ip))
                       | Some s \<Rightarrow>
                           (let m1 = m\<lparr>active_sessions :=
                                        AList.update ip
                                          (s\<lparr>provider_name := name provider,
                                             failover_tier := tier provider\<rparr>)
                                          (active_sessions m),
                                      providers := add_active_ip key ip (providers m)\<rparr>;
                                m2 = log_failover_event ip uid ''failed_provider'' (name provider)
                                       (''Automatic failover to tier '' @ str_int (tier provider)) m1
                            in (m2, Inr (Some
                                 \<lparr>web_status = 200, web_body = resp_body resp,
                                  web_content_type = resp_content_type resp,
                                  web_headers =
                                    [(''X-Failover-Provider'', name provider),
                                     (''X-Failover-Tier'', str_int (tier provider)),
                                     (''X-Client-IP'', ip),
                                     (''X-Failover-Used'', ''true'')]\<rparr>))))
                    else (m, Inr None))))"

text \<open>
  The \<^verbatim>\<open>for\<close> loop: an exception or a turn without \<^verbatim>\<open>return\<close> goes on to the
  next provider. The third component of the result lists the providers the loop has
  tried, in order.
\<close>

fun failover_loop ::
  "env \<Rightarrow> string \<Rightarrow> string \<Rightarrow> string \<Rightarrow> (string \<times> FailoverProvider) list \<Rightarrow> manager
     \<Rightarrow> manager \<times> web_response \<times> (string \<times> FailoverProvider) list" where
  "failover_loop e ip uid cid [] m =
     (m, text_response 503 ''All failover providers failed'', [])"
| "failover_loop e ip uid cid (kp # rest) m =
     (case failover_attempt e ip uid cid kp m of
        (m', Inr (Some r)) \<Rightarrow> (m', r, [kp])
      | (m', Inr None) \<Rightarrow>
          (case failover_loop e ip uid cid rest m' of (m'', r, tried) \<Rightarrow> (m'', r, kp # tried))
      | (m', Inl err) \<Rightarrow>
          (case failover_loop e ip uid cid rest m' of (m'', r, tried) \<Rightarrow> (m'', r, kp # tried)))"

definition candidates :: "manager \<Rightarrow> int \<Rightarrow> (string \<times> FailoverProvider) list" where
  "candidates m min_tier =
     filter (\<lambda>kp. tier (snd kp) \<ge> min_tier \<and> health_status (snd kp) \<noteq> ''offline'') (providers m)"

text \<open>\<^verbatim>\<open>try_failover_stream\<close>, lines 371 to 420.\<close>

definition try_failover_stream ::
  "env \<Rightarrow> string \<Rightarrow> string \<Rightarrow> string \<Rightarrow> int \<Rightarrow> manager
     \<Rightarrow> manager \<times> web_response \<times> (string \<times> FailoverProvider) list" where
  "try_failover_stream e ip uid cid min_tier m =
     (let available_providers = candidates m min_tier
      in if available_providers = [] then (m, text_response 503 ''No available providers'', [])
         else failover_loop e ip uid cid (sort_key (\<lambda>kp. tier (snd kp)) available_providers) m)"

subsection \<open>Handling a stream request\<close>

text \<open>
  \<^verbatim>\<open>handle_stream_request\<close>, lines 298 to 369, with the clock reading \<open>now\<close>, in
  three parts. \<open>track_session\<close> is lines 310 to 335: the failover event if the provider
  has changed, the new session record, and its entry in the session table, the
  provider's set and the database.
\<close>

definition track_session ::
  "datetime \<Rightarrow> string \<Rightarrow> string \<Rightarrow> string \<Rightarrow> string \<Rightarrow> FailoverProvider \<Rightarrow> manager
     \<Rightarrow> manager" where
  "track_session now client_ip uid channel_id pname provider m =
     (let current_session = map_of (active_sessions m) client_ip;
          m1 = (case current_session of
                  None \<Rightarrow> m
                | Some cs \<Rightarrow>
                    if provider_name cs \<noteq> pname
                    then log_failover_event client_ip uid (provider_name cs) pname
                           ''IP capacity or health-based failover'' m
                    else m);
          session =
            \<lparr>ip_address = client_ip, user_id = uid, provider_name = pname,
             failover_tier = tier provider,
             session_start = (case current_session of
                                None \<Rightarrow> now | Some cs \<Rightarrow> session_start cs),
             last_activity = now,
             channels_accessed = (case current_session of
                                    None \<Rightarrow> {channel_id}
                                  | Some cs \<Rightarrow> insert channel_id (channels_accessed cs)),
             connection_count = (case current_session of
                                   None \<Rightarrow> 0 | Some cs \<Rightarrow> connection_count cs) + 1\<rparr>
      in m1\<lparr>active_sessions := AList.update client_ip session (active_sessions m1),
            providers := add_active_ip pname client_ip (providers m1),
            db_sessions := db_sessions m1 @ [session]\<rparr>)"

text \<open>
  \<open>proxy_stream\<close> is lines 337 to 369: the stream URL, the fetch, and the escalation
  when the fetch raises or does not answer 200. The result is the state the call leaves
  and either the response or the exception that escapes.
\<close>

definition proxy_stream ::
  "env \<Rightarrow> string \<Rightarrow> string \<Rightarrow> string \<Rightarrow> string \<Rightarrow> FailoverProvider \<Rightarrow> manager
     \<Rightarrow> manager \<times> (exn + web_response)" where
  "proxy_stream e client_ip uid channel_id pname provider m =
     (case stream_url_for e provider channel_id of
        Inl err \<Rightarrow> (m, Inl err)
      | Inr stream_url \<Rightarrow>
          (case nonempty_url stream_url of
             None \<Rightarrow> (m, Inr (text_response 404 ''Channel not found''))
           | Some url \<Rightarrow>
               (case request (default_total e) (http_get e url) of
                  Inr resp \<Rightarrow>
                    if resp_status resp = 200 then
                      (m, Inr \<lparr>web_status = 200, web_body = resp_body resp,
                               web_content_type = resp_content_type resp,
                               web_headers =
                                 [(''X-Failover-Provider'', pname),
                                  (''X-Failover-Tier'', str_int (tier provider)),
                                  (''X-Client-IP'', client_ip)]\<rparr>)
                    else
                      (case try_failover_stream e client_ip uid channel_id (tier provider + 1) m of
                         (m', r, tried) \<Rightarrow> (m', Inr r))
                | Inl err \<Rightarrow>
                    (case try_failover_stream e client_ip uid channel_id (tier provider + 1) m of
                       (m', r, tried) \<Rightarrow> (m', Inr r)))))"

definition handle_stream_request ::
  "env \<Rightarrow> datetime \<Rightarrow> stream_request \<Rightarrow> manager \<Rightarrow> manager \<times> (exn + web_response)" where
  "handle_stream_request e now rq m =
     (let client_ip = get_client_ip e rq;
          uid = (case map_of (req_headers rq) ''X-User-ID'' of
                   Some u \<Rightarrow> u | None \<Rightarrow> ''user_'' @ client_ip);
          channel_id = (case map_of (match_info rq) ''channel_id'' of
                          Some c \<Rightarrow> c | None \<Rightarrow> ''unknown'')
      in case determine_failover_provider e m client_ip uid of
           Inl err \<Rightarrow> (m, Inl err)
         | Inr pname \<Rightarrow>
             (case getitem (providers m) pname of
                Inl err \<Rightarrow> (m, Inl err)
              | Inr provider \<Rightarrow>
                  proxy_stream e client_ip uid channel_id pname provider
                    (track_session now client_ip uid channel_id pname provider m)))"

subsection \<open>Provider health checks\<close>

text \<open>
  \<^verbatim>\<open>health_check_providers\<close>, lines 451 to 482. The function stores nothing but the
  status and the time of the check; the response time only goes into a log line, so the
  log lines are part of the result. \<open>clock k\<close> is the reading of \<^verbatim>\<open>datetime.now()\<close>
  when the check of the provider stored under \<open>k\<close> ends.
\<close>

datatype log_line =
    Info_health string string int
  | Error_health string string

text \<open>The response time a log line holds, if any.\<close>

fun logged_response_time :: "log_line \<Rightarrow> int option" where
  "logged_response_time (Info_health n st ms) = Some ms"
| "logged_response_time (Error_health n msg) = None"

definition health_url :: "FailoverProvider \<Rightarrow> exn + string" where
  "health_url p =
     (case truthy_config p of
        Some cfg \<Rightarrow>
          (case getitem cfg ''server_url'' of
             Inl err \<Rightarrow> Inl err
           | Inr server \<Rightarrow>
               (case getitem cfg ''username'' of
                  Inl err \<Rightarrow> Inl err
                | Inr user \<Rightarrow>
                    (case getitem cfg ''password'' of
                       Inl err \<Rightarrow> Inl err
                     | Inr pw \<Rightarrow>
                         Inr (server @ ''/player_api.php?username='' @ user @ ''&password='' @ pw
                              @ ''&action=get_live_categories''))))
      | None \<Rightarrow> Inr (m3u_url p))"

definition classify_response :: "nat \<Rightarrow> string" where
  "classify_response code =
     (if code = 200 then ''healthy''
      else if code \<in> set [502, 503, 504] then ''degraded''
      else ''offline'')"

text \<open>\<^verbatim>\<open>int(x)\<close> on a float truncates towards zero.\<close>

definition int_of_float :: "real \<Rightarrow> int" where
  "int_of_float x = (if 0 \<le> x then \<lfloor>x\<rfloor> else \<lceil>x\<rceil>)"

definition probe_provider :: "env \<Rightarrow> FailoverProvider \<Rightarrow> exn + (nat \<times> int)" where
  "probe_provider e p =
     (case health_url p of
        Inl err \<Rightarrow> Inl err
      | Inr u \<Rightarrow>
          (case request (Some 30) (http_get e u) of
             Inl err \<Rightarrow> Inl err
           | Inr resp \<Rightarrow> Inr (resp_status resp, int_of_float (elapsed (http_get e u) * 1000))))"

definition check_provider ::
  "env \<Rightarrow> datetime \<Rightarrow> FailoverProvider \<Rightarrow> FailoverProvider \<times> log_line" where
  "check_provider e now p =
     (case probe_provider e p of
        Inr (code, response_time) \<Rightarrow>
          (p\<lparr>health_status := classify_response code, last_health_check := Some now\<rparr>,
           Info_health (name p) (classify_response code) response_time)
      | Inl err \<Rightarrow>
          (p\<lparr>health_status := ''offline'', last_health_check := Some now\<rparr>,
           Error_health (name p) (str_exn err)))"

definition health_check_providers ::
  "env \<Rightarrow> (string \<Rightarrow> datetime) \<Rightarrow> manager \<Rightarrow> manager \<times> log_line list" where
  "health_check_providers e clock m =
     (m\<lparr>providers := map (\<lambda>kp. (fst kp, fst (check_provider e (clock (fst kp)) (snd kp)))) (providers m)\<rparr>,
      map (\<lambda>kp. snd (check_provider e (clock (fst kp)) (snd kp))) (providers m))"

subsection \<open>Session expiry\<close>

text \<open>
  \<^verbatim>\<open>cleanup_expired_sessions\<close>, lines 484 to 501. \<open>expire_scan\<close> is one turn of the first
  loop, on the list of expired addresses and the provider table; \<open>AList.map_entry\<close>
  leaves a table without the key as it is, which is the guard
  \<^verbatim>\<open>if session.provider_name in self.providers\<close>.
\<close>

definition discard_active_ip ::
  "string \<Rightarrow> string \<Rightarrow> (string \<times> FailoverProvider) list \<Rightarrow> (string \<times> FailoverProvider) list" where
  "discard_active_ip key ip ps =
     AList.map_entry key (\<lambda>p. p\<lparr>active_ips := active_ips p - {ip}\<rparr>) ps"

definition expire_scan ::
  "datetime \<Rightarrow> string \<times> IPSession \<Rightarrow> string list \<times> (string \<times> FailoverProvider) list
     \<Rightarrow> string list \<times> (string \<times> FailoverProvider) list" where
  "expire_scan cutoff_time entry acc =
     (if last_activity (snd entry) < cutoff_time
      then (fst acc @ [fst entry],
            discard_active_ip (provider_name (snd entry)) (fst entry) (snd acc))
      else acc)"

definition cleanup_expired_sessions :: "datetime \<Rightarrow> manager \<Rightarrow> manager" where
  "cleanup_expired_sessions now m =
     (let cutoff_time = now - timedelta_minutes 30;
          scanned = fold (expire_scan cutoff_time) (active_sessions m) ([], providers m);
          expired_ips = fst scanned
      in m\<lparr>providers := snd scanned,
           active_sessions := fold AList.delete expired_ips (active_sessions m)\<rparr>)"

subsection \<open>Start-up and the reachable states\<close>

text \<open>
  \<^verbatim>\<open>load_config\<close>, lines 171 to 186: every configured provider becomes a
  \<^verbatim>\<open>FailoverProvider\<close> with the defaults of the class (no address assigned, health
  \<^verbatim>\<open>unknown\<close>, never checked) and is stored under its name.
\<close>

record provider_config =
  cfg_name :: string
  cfg_tier :: int
  cfg_m3u_url :: string
  cfg_xtream_config :: "(string \<times> string) list option"
  cfg_max_concurrent_ips :: int

definition new_provider :: "provider_config \<Rightarrow> FailoverProvider" where
  "new_provider c =
     \<lparr>name = cfg_name c, tier = cfg_tier c, m3u_url = cfg_m3u_url c,
      xtream_config = cfg_xtream_config c, max_concurrent_ips = cfg_max_concurrent_ips c,
      active_ips = {}, health_status = ''unknown'', last_health_check = None\<rparr>"

definition load_config :: "provider_config list \<Rightarrow> manager" where
  "load_config cs =
     \<lparr>providers = fold (\<lambda>c ps. AList.update (cfg_name c) (new_provider c) ps) cs [],
      active_sessions = [], db_sessions = [], db_failover_events = []\<rparr>"

text \<open>The providers of \<^verbatim>\<open>create_default_config\<close>, lines 199 to 229.\<close>

definition default_config :: "provider_config list" where
  "default_config =
     [\<lparr>cfg_name = ''Primary_Provider'', cfg_tier = 0,
       cfg_m3u_url = ''http://primary-provider.com/playlist.m3u8'',
       cfg_xtream_config = Some [(''server_url'', ''http://primary-provider.com:8080''),
                                 (''username'', ''user1''), (''password'', ''pass1'')],
       cfg_max_concurrent_ips = 1\<rparr>,
      \<lparr>cfg_name = ''Secondary_Provider'', cfg_tier = 1,
       cfg_m3u_url = ''http://secondary-provider.com/playlist.m3u8'',
       cfg_xtream_config = Some [(''server_url'', ''http://secondary-provider.com:8080''),
                                 (''username'', ''user2''), (''password'', ''pass2'')],
       cfg_max_concurrent_ips = 1\<rparr>,
      \<lparr>cfg_name = ''Tertiary_Provider'', cfg_tier = 2,
       cfg_m3u_url = ''http://tertiary-provider.com/playlist.m3u8'',
       cfg_xtream_config = None,
       cfg_max_concurrent_ips = 1\<rparr>]"

text \<open>
  The states of the manager: after start-up, and after any stream request (whatever it
  returns or raises), health check or session clean-up, in any environment and at any
  clock reading.
\<close>

inductive reachable :: "manager \<Rightarrow> bool" where
  start: "reachable (load_config cs)"
| stream: "reachable m \<Longrightarrow> reachable (fst (handle_stream_request e now rq m))"
| health: "reachable m \<Longrightarrow> reachable (fst (health_check_providers e clock m))"
| expiry: "reachable m \<Longrightarrow> reachable (cleanup_expired_sessions now m)"

section \<open>The stream health checker\<close>

subsection \<open>Data model\<close>

record StreamHealth =
  url :: string
  status :: string
  response_time :: real
  status_code :: "nat option"
  content_type :: "string option"
  content_length :: "int option"
  error_message :: "string option"
  timestamp :: real

record ChannelHealthReport =
  channel_name :: string
  channel_id :: string
  streams :: "StreamHealth list"
  best_stream :: "StreamHealth option"
  worst_stream :: "StreamHealth option"
  average_response_time :: real
  success_rate :: real

text \<open>
  \<^verbatim>\<open>min(xs, key=f)\<close> and \<^verbatim>\<open>max(xs, key=f)\<close> on a non-empty list \<open>x # xs\<close>: both keep
  the first of several equal candidates.
\<close>

fun min_key :: "('a \<Rightarrow> real) \<Rightarrow> 'a \<Rightarrow> 'a list \<Rightarrow> 'a" where
  "min_key f best [] = best"
| "min_key f best (x # xs) = min_key f (if f x < f best then x else best) xs"

fun max_key :: "('a \<Rightarrow> real) \<Rightarrow> 'a \<Rightarrow> 'a list \<Rightarrow> 'a" where
  "max_key f best [] = best"
| "max_key f best (x # xs) = max_key f (if f best < f x then x else best) xs"

definition mean :: "real list \<Rightarrow> real" where
  "mean xs = sum_list xs / real (length xs)"

text \<open>
  The constructor of \<^verbatim>\<open>ChannelHealthReport\<close> as the checker calls it, with
  \<^verbatim>\<open>__post_init__\<close>, lines 47 to 56.
\<close>

definition channel_health_report :: "string \<Rightarrow> string \<Rightarrow> StreamHealth list \<Rightarrow> ChannelHealthReport" where
  "channel_health_report n i ss =
     (let r0 = \<lparr>channel_name = n, channel_id = i, streams = ss, best_stream = None,
                worst_stream = None, average_response_time = 0, success_rate = 0\<rparr>;
          online_streams = filter (\<lambda>s. status s = ''online'') ss
      in if ss = [] then r0
         else
           (case online_streams of
              [] \<Rightarrow> r0
            | s # rest \<Rightarrow>
                r0\<lparr>best_stream := Some (min_key response_time s rest),
                   worst_stream := Some (max_key response_time s rest),
                   average_response_time := mean (map response_time online_streams)\<rparr>)
           \<lparr>success_rate := real (length online_streams) / real (length ss) * 100\<rparr>)"

text \<open>
  The checker: its settings and the client session, which exists between
  \<^verbatim>\<open>__aenter__\<close> and \<^verbatim>\<open>__aexit__\<close> and carries the timeouts it was created with.
  \<^verbatim>\<open>health_history\<close> is not read by the functions below.
\<close>

record client_timeout =
  timeout_total :: real
  timeout_connect :: real

record StreamHealthChecker =
  max_concurrent :: int
  timeout :: real
  session :: "client_timeout option"

definition new_checker :: "int \<Rightarrow> real \<Rightarrow> StreamHealthChecker" where
  "new_checker mc t = \<lparr>max_concurrent = mc, timeout = t, session = None\<rparr>"

definition aenter :: "StreamHealthChecker \<Rightarrow> StreamHealthChecker" where
  "aenter c = c\<lparr>session := Some \<lparr>timeout_total = timeout c, timeout_connect = 5\<rparr>\<rparr>"

text \<open>
  The environment of a probe: \<^verbatim>\<open>urlparse\<close> (scheme and network location, or the
  exception it raises), \<^verbatim>\<open>int()\<close> on a header value, and the answer of the network to
  a HEAD request, which does not follow redirects by itself. Header names are in lower
  case. Only the total timeout of the session is modelled.
\<close>

record probe_env =
  urlparse :: "string \<Rightarrow> exn + string \<times> string"
  py_int :: "string \<Rightarrow> exn + int"
  http_head :: "string \<Rightarrow> reply"

subsection \<open>Probing one stream\<close>

definition stream_health :: "string \<Rightarrow> string \<Rightarrow> real \<Rightarrow> StreamHealth" where
  "stream_health u st now =
     \<lparr>url = u, status = st, response_time = 0, status_code = None, content_type = None,
      content_length = None, error_message = None, timestamp = now\<rparr>"

text \<open>
  The three \<^verbatim>\<open>except\<close> clauses of \<^verbatim>\<open>check_stream_health\<close>, lines 118 to 138, run
  at clock reading \<open>now\<close>.
\<close>

definition probe_failure :: "StreamHealthChecker \<Rightarrow> string \<Rightarrow> real \<Rightarrow> real \<Rightarrow> exn \<Rightarrow> StreamHealth" where
  "probe_failure c u start_time now err =
     (case err of
        TimeoutError \<Rightarrow>
          (stream_health u ''timeout'' now)
            \<lparr>response_time := timeout c, error_message := Some ''Request timeout''\<rparr>
      | ClientError msg \<Rightarrow>
          (stream_health u ''error'' now)
            \<lparr>response_time := now - start_time, error_message := Some msg\<rparr>
      | _ \<Rightarrow>
          (stream_health u ''error'' now)
            \<lparr>response_time := now - start_time,
             error_message := Some (''Unexpected error: '' @ str_exn err)\<rparr>)"

definition header_content_length :: "probe_env \<Rightarrow> http_response \<Rightarrow> exn + int" where
  "header_content_length pe response =
     (case map_of (resp_headers response) ''content-length'' of
        None \<Rightarrow> Inr 0
      | Some v \<Rightarrow> py_int pe v)"

text \<open>The redirect branch is taken for these four codes and a non-empty target.\<close>

definition redirect_target :: "http_response \<Rightarrow> string option" where
  "redirect_target response =
     (if resp_status response \<in> set [301, 302, 307, 308]
      then nonempty_url (map_of (resp_headers response) ''location'')
      else None)"

text \<open>
  One run of \<^verbatim>\<open>check_stream_health\<close>: what it returns or raises, the URLs it sent a
  HEAD request to, in order, and the clock reading at its end.
\<close>

record probe_run =
  outcome_of :: "exn + StreamHealth"
  requested :: "string list"
  finished :: real

text \<open>
  \<^verbatim>\<open>check_stream_health\<close>, lines 77 to 138, started at clock reading \<open>start_time\<close>.
  The function calls itself on the target of a redirect, inside its own \<^verbatim>\<open>try\<close>.
  \<open>depth\<close> is the number of nested calls the interpreter still allows: with none left
  the call raises \<^verbatim>\<open>RecursionError\<close>, which the \<^verbatim>\<open>except Exception\<close> clause of the
  calling frame catches. Only requests take time.
\<close>

fun check_stream_health ::
  "nat \<Rightarrow> probe_env \<Rightarrow> StreamHealthChecker \<Rightarrow> real \<Rightarrow> string \<Rightarrow> probe_run" where
  "check_stream_health depth pe c start_time u =
     (let body =
        (case urlparse pe u of
           Inl err \<Rightarrow> \<lparr>outcome_of = Inl err, requested = [], finished = start_time\<rparr>
         | Inr parsed \<Rightarrow>
             if fst parsed = [] \<or> snd parsed = [] then
               \<lparr>outcome_of = Inr ((stream_health u ''error'' start_time)
                                    \<lparr>error_message := Some ''Invalid URL format''\<rparr>),
                requested = [], finished = start_time\<rparr>
             else
               (case session c of
                  None \<Rightarrow> \<lparr>outcome_of = Inl AttributeError, requested = [], finished = start_time\<rparr>
                | Some tmo \<Rightarrow>
                    (let budget = Some (timeout_total tmo);
                         now = start_time + duration budget (http_head pe u)
                     in case request budget (http_head pe u) of
                          Inl err \<Rightarrow> \<lparr>outcome_of = Inl err, requested = [u], finished = now\<rparr>
                        | Inr response \<Rightarrow>
                            if resp_status response = 200 then
                              (case header_content_length pe response of
                                 Inl err \<Rightarrow> \<lparr>outcome_of = Inl err, requested = [u], finished = now\<rparr>
                               | Inr n \<Rightarrow>
                                   \<lparr>outcome_of = Inr ((stream_health u ''online'' now)
                                       \<lparr>response_time := now - start_time,
                                        status_code := Some (resp_status response),
                                        content_type := map_of (resp_headers response) ''content-type'',
                                        content_length := Some n\<rparr>),
                                    requested = [u], finished = now\<rparr>)
                            else
                              (case redirect_target response of
                                 Some redirect_url \<Rightarrow>
                                   (case depth of
                                      0 \<Rightarrow> \<lparr>outcome_of = Inl RecursionError, requested = [u],
                                            finished = now\<rparr>
                                    | Suc d \<Rightarrow>
                                        (let inner = check_stream_health d pe c now redirect_url
                                         in inner\<lparr>requested := u # requested inner\<rparr>))
                               | None \<Rightarrow>
                                   \<lparr>outcome_of = Inr ((stream_health u ''offline'' now)
                                       \<lparr>response_time := now - start_time,
                                        status_code := Some (resp_status response),
                                        error_message :=
                                          Some (''HTTP '' @ str_nat (resp_status response))\<rparr>),
                                    requested = [u], finished = now\<rparr>))))
      in case outcome_of body of
           Inr h \<Rightarrow> body
         | Inl err \<Rightarrow>
             body\<lparr>outcome_of := Inr (probe_failure c u start_time (finished body) err)\<rparr>)"

declare check_stream_health.simps [simp del]

text \<open>The four values of \<^verbatim>\<open>StreamHealth.status\<close>.\<close>

definition classified :: "StreamHealth \<Rightarrow> bool" where
  "classified h \<longleftrightarrow>
     status h = ''online'' \<or> status h = ''offline'' \<or> status h = ''timeout''
     \<or> status h = ''error''"

text \<open>
  A malformed URL: \<^verbatim>\<open>urlparse\<close> finds no scheme or no network location, or rejects
  it with a \<^verbatim>\<open>ValueError\<close>.
\<close>

definition malformed :: "probe_env \<Rightarrow> string \<Rightarrow> bool" where
  "malformed pe u \<longleftrightarrow>
     (case urlparse pe u of
        Inr parsed \<Rightarrow> fst parsed = [] \<or> snd parsed = []
      | Inl (ValueError msg) \<Rightarrow> True
      | Inl _ \<Rightarrow> False)"

text \<open>
  The probe of \<open>u\<close> is answered by a redirect to \<open>v\<close> that the function follows; a chain
  of such redirects from \<open>u\<close> through the URLs of a list.
\<close>

definition redirects_to :: "probe_env \<Rightarrow> StreamHealthChecker \<Rightarrow> string \<Rightarrow> string \<Rightarrow> bool" where
  "redirects_to pe c u v \<longleftrightarrow>
     (case urlparse pe u of
        Inl err \<Rightarrow> False
      | Inr parsed \<Rightarrow>
          fst parsed \<noteq> [] \<and> snd parsed \<noteq> []
          \<and> (case session c of
                None \<Rightarrow> False
              | Some tmo \<Rightarrow>
                  (case request (Some (timeout_total tmo)) (http_head pe u) of
                     Inl err \<Rightarrow> False
                   | Inr response \<Rightarrow>
                       resp_status response \<noteq> 200 \<and> redirect_target response = Some v)))"

fun redirect_chain :: "probe_env \<Rightarrow> StreamHealthChecker \<Rightarrow> string \<Rightarrow> string list \<Rightarrow> bool" where
  "redirect_chain pe c u [] = True"
| "redirect_chain pe c u (v # vs) = (redirects_to pe c u v \<and> redirect_chain pe c v vs)"

subsection \<open>Probing the streams of a channel\<close>

text \<open>
  A channel dictionary: its optional name and id and its list of streams, each with an
  optional URL. \<^verbatim>\<open>check_channel_health\<close>, lines 176 to 207: the probes of one channel
  are gathered, so they all start at the same clock reading, and results that are
  exceptions are dropped.
\<close>

record channel =
  ch_name :: "string option"
  ch_id :: "string option"
  ch_streams :: "string option list"

definition check_channel_health ::
  "nat \<Rightarrow> probe_env \<Rightarrow> StreamHealthChecker \<Rightarrow> real \<Rightarrow> channel \<Rightarrow> ChannelHealthReport" where
  "check_channel_health depth pe c now ch =
     (let n = (case ch_name ch of Some x \<Rightarrow> x | None \<Rightarrow> ''Unknown'');
          i = (case ch_id ch of Some x \<Rightarrow> x | None \<Rightarrow> [])
      in if ch_streams ch = [] then channel_health_report n i []
         else
           (let tasks = List.map_filter nonempty_url (ch_streams ch);
                stream_results = map (\<lambda>u. outcome_of (check_stream_health depth pe c now u)) tasks;
                health_results =
                  List.map_filter (\<lambda>r. case r of Inr h \<Rightarrow> Some h | Inl err \<Rightarrow> None) stream_results
            in channel_health_report n i health_results))"

section \<open>Concrete environments and states\<close>

text \<open>
  Two providers without a templated API: \<open>A\<close> of tier 0 and \<open>B\<close> of tier 1, one address
  each. The playlist of \<open>B\<close> lists the channel \<open>news\<close>.
\<close>

definition ok_reply :: "string \<Rightarrow> reply" where
  "ok_reply b =
     \<lparr>elapsed = 1 / 5,
      outcome = Inr \<lparr>resp_status = 200, resp_content_type = ''application/vnd.apple.mpegurl'',
                     resp_body = b, resp_headers = []\<rparr>\<rparr>"

definition status_reply :: "nat \<Rightarrow> reply" where
  "status_reply code =
     \<lparr>elapsed = 1 / 5,
      outcome = Inr \<lparr>resp_status = code, resp_content_type = ''text/html'',
                     resp_body = [], resp_headers = []\<rparr>\<rparr>"

definition two_providers :: "provider_config list" where
  "two_providers =
     [\<lparr>cfg_name = ''A'', cfg_tier = 0, cfg_m3u_url = ''http://a/list'',
       cfg_xtream_config = None, cfg_max_concurrent_ips = 1\<rparr>,
      \<lparr>cfg_name = ''B'', cfg_tier = 1, cfg_m3u_url = ''http://b/list'',
       cfg_xtream_config = None, cfg_max_concurrent_ips = 1\<rparr>]"

definition playlist_b :: string where
  "playlist_b = ''#EXTM3U'' @ [CHR 0x0A] @ ''#EXTINF:-1,news'' @ [CHR 0x0A] @ ''http://b/news.ts''"

text \<open>A network on which only \<open>B\<close> works, and one on which every request succeeds.\<close>

definition net_only_b :: env where
  "net_only_b =
     \<lparr>md5_int = length, valid_ip = (\<lambda>s. s \<noteq> []),
      http_get = (\<lambda>u. if u = ''http://b/list'' then ok_reply playlist_b
                        else if u = ''http://b/news.ts'' then ok_reply ''video''
                        else status_reply 500),
      default_total = Some 300\<rparr>"

definition net_all_up :: env where
  "net_all_up =
     \<lparr>md5_int = length, valid_ip = (\<lambda>s. s \<noteq> []),
      http_get = (\<lambda>u. ok_reply playlist_b),
      default_total = Some 300\<rparr>"

definition request_news :: "string \<Rightarrow> stream_request" where
  "request_news ip =
     \<lparr>req_headers = [(''X-Forwarded-For'', ip)], remote = ''192.0.2.1'',
      match_info = [(''channel_id'', ''news'')]\<rparr>"

text \<open>
  A run: start-up; a health check while only \<open>B\<close> answers; a request from 10.0.0.1, which
  is served by \<open>B\<close>; a health check while both answer.
\<close>

definition after_first_check :: manager where
  "after_first_check = fst (health_check_providers net_only_b (\<lambda>k. 100) (load_config two_providers))"

definition after_request :: manager where
  "after_request = fst (handle_stream_request net_only_b 200 (request_news ''10.0.0.1'') after_first_check)"

definition after_second_check :: manager where
  "after_second_check = fst (health_check_providers net_all_up (\<lambda>k. 300) after_request)"

text \<open>The same run with a last health check during which \<open>B\<close> answers 503.\<close>

definition net_b_degraded :: env where
  "net_b_degraded =
     \<lparr>md5_int = length, valid_ip = (\<lambda>s. s \<noteq> []),
      http_get = (\<lambda>u. if u = ''http://b/list'' then status_reply 503 else ok_reply playlist_b),
      default_total = Some 300\<rparr>"

definition after_degrading_check :: manager where
  "after_degrading_check = fst (health_check_providers net_b_degraded (\<lambda>k. 300) after_request)"

text \<open>A state in which \<open>B\<close> has room for a second address.\<close>

definition session_b :: IPSession where
  "session_b =
     \<lparr>ip_address = ''10.0.0.1'', user_id = ''user_10.0.0.1'', provider_name = ''B'',
      failover_tier = 1, session_start = 200, last_activity = 200,
      channels_accessed = {''news''}, connection_count = 1\<rparr>"

definition provider_b_roomy :: FailoverProvider where
  "provider_b_roomy =
     \<lparr>name = ''B'', tier = 1, m3u_url = ''http://b/list'', xtream_config = None,
      max_concurrent_ips = 2, active_ips = {''10.0.0.1''}, health_status = ''healthy'',
      last_health_check = Some 300\<rparr>"

definition roomy :: manager where
  "roomy =
     \<lparr>providers = [(''B'', provider_b_roomy)], active_sessions = [(''10.0.0.1'', session_b)],
      db_sessions = [session_b], db_failover_events = []\<rparr>"

definition provider_a_up :: FailoverProvider where
  "provider_a_up =
     \<lparr>name = ''A'', tier = 0, m3u_url = ''http://a/list'', xtream_config = None,
      max_concurrent_ips = 1, active_ips = {}, health_status = ''healthy'',
      last_health_check = Some 300\<rparr>"

definition provider_b_full :: FailoverProvider where
  "provider_b_full =
     \<lparr>name = ''B'', tier = 1, m3u_url = ''http://b/list'', xtream_config = None,
      max_concurrent_ips = 1, active_ips = {''10.0.0.1''}, health_status = ''healthy'',
      last_health_check = Some 300\<rparr>"

text \<open>
  The first \<^verbatim>\<open>if\<close> of \<^verbatim>\<open>determine_failover_provider\<close> does not return: the address
  has no session, or the session's provider is not healthy or holds more addresses than
  it allows.
\<close>

definition sticky_declines :: "manager \<Rightarrow> string \<Rightarrow> bool" where
  "sticky_declines m ip \<longleftrightarrow>
     (case map_of (active_sessions m) ip of
        None \<Rightarrow> True
      | Some s \<Rightarrow>
          (case map_of (providers m) (provider_name s) of
             None \<Rightarrow> False
           | Some p \<Rightarrow> \<not> (health_status p = ''healthy'' \<and> occupancy p \<le> max_concurrent_ips p)))"

text \<open>A network that answers every request after 45 seconds.\<close>

definition net_slow :: env where
  "net_slow =
     \<lparr>md5_int = length, valid_ip = (\<lambda>s. s \<noteq> []),
      http_get = (\<lambda>u. (ok_reply playlist_b)\<lparr>elapsed := 45\<rparr>),
      default_total = Some 300\<rparr>"

text \<open>
  For the health checker: a chain of two redirects that ends in a stream, a redirect to
  itself, a stream that answers after a minute, and 404 for everything else.
\<close>

definition head_reply :: "real \<Rightarrow> nat \<Rightarrow> (string \<times> string) list \<Rightarrow> reply" where
  "head_reply t code hs =
     \<lparr>elapsed = t,
      outcome = Inr \<lparr>resp_status = code, resp_content_type = [], resp_body = [],
                     resp_headers = hs\<rparr>\<rparr>"

definition probe_net :: probe_env where
  "probe_net =
     \<lparr>urlparse = (\<lambda>u. if startswith ''http://'' u
                       then Inr (''http'', takeWhile (\<lambda>c. c \<noteq> CHR ''/'') (drop 7 u))
                       else Inr ([], [])),
      py_int = (\<lambda>s. if s = ''1024'' then Inr 1024 else Inl (ValueError s)),
      http_head =
        (\<lambda>u. if u = ''http://a/s'' then head_reply (1 / 10) 302 [(''location'', ''http://b/s'')]
             else if u = ''http://b/s'' then head_reply (1 / 10) 301 [(''location'', ''http://c/s'')]
             else if u = ''http://c/s''
               then head_reply (1 / 5) 200 [(''content-type'', ''video/mp2t''), (''content-length'', ''1024'')]
             else if u = ''http://loop/s'' then head_reply (1 / 10) 307 [(''location'', ''http://loop/s'')]
             else if u = ''http://slow/s'' then head_reply 60 200 []
             else head_reply (1 / 10) 404 [])\<rparr>"

definition checker :: StreamHealthChecker where
  "checker = aenter (new_checker 5 10)"

definition stream_up :: StreamHealth where
  "stream_up =
     \<lparr>url = ''http://c/s'', status = ''online'', response_time = 1 / 5, status_code = Some 200,
      content_type = Some ''video/mp2t'', content_length = Some 1024, error_message = None,
      timestamp = 1 / 5\<rparr>"

definition stream_down :: StreamHealth where
  "stream_down =
     \<lparr>url = ''http://d/s'', status = ''offline'', response_time = 1 / 10, status_code = Some 404,
      content_type = None, content_length = None, error_message = Some ''HTTP 404'',
      timestamp = 1 / 10\<rparr>"

definition channel_news :: channel where
  "channel_news =
     \<lparr>ch_name = Some ''News'', ch_id = Some ''news'',
      ch_streams = [Some ''http://c/s'', Some ''http://d/s'', None, Some ''http://slow/s'',
                    Some ''nowhere'']\<rparr>"

section \<open>Predicates used in the statements\<close>

text \<open>
  What the code keeps true of its tables: both are dictionaries (no key twice), a
  provider is stored under its name and has finitely many addresses, and the address of
  every session is in the set of the provider the session names.
\<close>

definition well_formed :: "manager \<Rightarrow> bool" where
  "well_formed m \<longleftrightarrow>
     distinct (map fst (providers m))
     \<and> distinct (map fst (active_sessions m))
     \<and> (\<forall>k p. map_of (providers m) k = Some p \<longrightarrow> name p = k \<and> finite (active_ips p))
     \<and> (\<forall>ip s. map_of (active_sessions m) ip = Some s \<longrightarrow>
           (\<exists>p. map_of (providers m) (provider_name s) = Some p \<and> ip \<in> active_ips p))"

text \<open>
  The addresses whose session names the provider \<open>k\<close> and was last active before the
  cut-off.
\<close>

definition expired_at :: "manager \<Rightarrow> datetime \<Rightarrow> string \<Rightarrow> string set" where
  "expired_at m cutoff_time k =
     {ip. \<exists>s. map_of (active_sessions m) ip = Some s
              \<and> last_activity s < cutoff_time \<and> provider_name s = k}"

text \<open>
  An attempt of the escalation loop fails: it ends without a response, because there is
  no URL, the fetch does not answer 200, or an exception is raised.
\<close>

definition attempt_fails ::
  "env \<Rightarrow> string \<Rightarrow> string \<Rightarrow> string \<Rightarrow> string \<times> FailoverProvider \<Rightarrow> manager \<Rightarrow> bool" where
  "attempt_fails e ip uid cid kp m \<longleftrightarrow>
     (case snd (failover_attempt e ip uid cid kp m) of
        Inr (Some r) \<Rightarrow> False
      | Inr None \<Rightarrow> True
      | Inl err \<Rightarrow> True)"

text \<open>
  The default configuration on a network where the primary provider answers 503 and the
  secondary provider works: one request from 203.0.113.7.
\<close>

definition net_primary_down :: env where
  "net_primary_down =
     \<lparr>md5_int = length, valid_ip = (\<lambda>s. s \<noteq> []),
      http_get = (\<lambda>u. if u = ''http://secondary-provider.com:8080/live/user2/pass2/news.m3u8''
                        then ok_reply ''video'' else status_reply 503),
      default_total = Some 300\<rparr>"

definition after_escalation :: manager where
  "after_escalation =
     fst (handle_stream_request net_primary_down 1000 (request_news ''203.0.113.7'')
            (load_config default_config))"

section \<open>Facts about the concrete states\<close>

lemma after_second_check_eq:
  "after_second_check =
     \<lparr>providers = [(''A'', provider_a_up), (''B'', provider_b_full)],
      active_sessions = [(''10.0.0.1'', session_b)],
      db_sessions = [session_b], db_failover_events = []\<rparr>"
  by code_simp

lemma after_degrading_check_eq:
  "after_degrading_check =
     \<lparr>providers = [(''A'', provider_a_up), (''B'', provider_b_full\<lparr>health_status := ''degraded''\<rparr>)],
      active_sessions = [(''10.0.0.1'', session_b)],
      db_sessions = [session_b], db_failover_events = []\<rparr>"
  by code_simp

lemma reachable_after_request: "reachable after_request"
  unfolding after_request_def after_first_check_def
  by (intro reachable.stream reachable.health reachable.start)

lemma reachable_after_second_check: "reachable after_second_check"
  unfolding after_second_check_def
  by (intro reachable.health reachable_after_request)

lemma reachable_after_degrading_check: "reachable after_degrading_check"
  unfolding after_degrading_check_def
  by (intro reachable.health reachable_after_request)

section \<open>Provider selection\<close>

lemma find_filter_Some:
  "find P xs = Some q \<Longrightarrow> Q q \<Longrightarrow> find P (filter Q xs) = Some q"
  by (induction xs) (auto split: if_splits)

lemma find_Some_mem:
  "find P xs = Some q \<Longrightarrow> P q \<and> q \<in> set xs"
  by (induction xs) (auto split: if_splits)

lemma find_first_in_sorted:
  assumes "sorted (map f xs)" and "find P xs = Some q" and "p \<in> set xs" and "P p"
  shows "f q \<le> f p"
  using assms
proof (induction xs)
  case Nil
  then show ?case by simp
next
  case (Cons a xs)
  show ?case
  proof (cases "P a")
    case True
    with Cons.prems have "q = a" by simp
    with Cons.prems show ?thesis by auto
  next
    case False
    with Cons.prems have "find P xs = Some q" "p \<in> set xs" "sorted (map f xs)" by auto
    with Cons.IH Cons.prems show ?thesis by blast
  qed
qed

text \<open>
  The first hit of a search through a list sorted by a stable sort: the hit has the least
  key among the elements with the property, and is the earliest of these in the list
  before sorting.
\<close>

lemma find_sort_key_first:
  fixes f :: "'a \<Rightarrow> int"
  assumes pp: "P p"
    and first: "xs = us @ p # vs"
    and least: "\<forall>q\<in>set (us @ vs). P q \<longrightarrow> f p \<le> f q"
    and tie: "\<forall>q\<in>set us. P q \<longrightarrow> f q \<noteq> f p"
  shows "find P (sort_key f xs) = Some p"
proof -
  from first have mem: "p \<in> set xs" by simp
  with pp have "\<exists>x. x \<in> set (sort_key f xs) \<and> P x" by auto
  then obtain q where q: "find P (sort_key f xs) = Some q"
    using find_None_iff [of P "sort_key f xs"] by (cases "find P (sort_key f xs)") auto
  then have qP: "P q" and qmem: "q \<in> set xs"
    using find_Some_mem [of P "sort_key f xs" q] by auto
  have "f q \<le> f p"
    using find_first_in_sorted [of f "sort_key f xs" P q p] q mem pp by simp
  moreover from least qP qmem first have "f p \<le> f q" by auto
  ultimately have eq: "f q = f p" by simp
  have "find P (filter (\<lambda>y. f y = f p) (sort_key f xs)) = Some q"
    using q eq by (rule find_filter_Some)
  then have "find P (filter (\<lambda>y. f y = f p) xs) = Some q"
    by (simp add: sort_key_stable)
  moreover have "find P (filter (\<lambda>y. f y = f p) xs) = Some p"
    unfolding first using tie pp by (induction us) auto
  ultimately show ?thesis using q by simp
qed

text \<open>
  C1. If the address has a session, the session's provider is healthy and fewer
  addresses are assigned to it than it allows, then \<open>determine_failover_provider\<close>
  returns the session's provider; the state is not changed by the call, so every further
  call in this state (with any user id, in any environment) returns the same provider.
\<close>

theorem sticky_assignment:
  assumes "map_of (active_sessions m) ip = Some s"
    and "map_of (providers m) (provider_name s) = Some p"
    and "health_status p = ''healthy''"
    and "occupancy p < max_concurrent_ips p"
  shows "determine_failover_provider e m ip uid = Inr (provider_name s)
         \<and> determine_failover_provider e' m ip uid' = determine_failover_provider e m ip uid"
  using assms
  by (simp add: determine_failover_provider_def sticky_choice_def getitem_def)

theorem sticky_assignment_witness:
  "determine_failover_provider net_all_up roomy ''10.0.0.1'' ''u'' = Inr ''B''
   \<and> determine_failover_provider net_only_b roomy ''10.0.0.1'' ''v''
       = determine_failover_provider net_all_up roomy ''10.0.0.1'' ''u''"
  using sticky_assignment [of roomy "''10.0.0.1''" session_b provider_b_roomy
      net_all_up "''u''" net_only_b "''v''"]
  by (simp add: roomy_def session_b_def provider_b_roomy_def occupancy_def)

text \<open>
  C4, as the claim states it, fails in a reachable state. The address 10.0.0.1 has a
  session with \<open>B\<close>; \<open>B\<close> is healthy and holds as many addresses as it allows, so the
  sticky rule of the specification (occupancy below capacity) does not apply. The
  providers in tier order are \<open>A\<close>, \<open>B\<close>, and \<open>A\<close> is healthy with a free place, but the
  function returns \<open>B\<close>: its sticky test is occupancy at most capacity.
\<close>

theorem selection_counterexample:
  "reachable after_second_check
   \<and> map_of (active_sessions after_second_check) ''10.0.0.1'' = Some session_b
   \<and> map_of (providers after_second_check) (provider_name session_b) = Some provider_b_full
   \<and> \<not> (health_status provider_b_full = ''healthy''
         \<and> occupancy provider_b_full < max_concurrent_ips provider_b_full)
   \<and> sorted_providers after_second_check = [provider_a_up, provider_b_full]
   \<and> available provider_a_up
   \<and> determine_failover_provider net_all_up after_second_check ''10.0.0.1'' ''user_10.0.0.1''
       = Inr ''B''
   \<and> name provider_a_up \<noteq> ''B''"
  using reachable_after_second_check
  by (simp add: after_second_check_eq session_b_def provider_b_full_def provider_a_up_def
      occupancy_def available_def sorted_providers_def determine_failover_provider_def
      sticky_choice_def getitem_def)

text \<open>
  C4, amended. The sticky test declines when the address has no session, or the
  session's provider is not healthy or holds more addresses than it allows. Then the
  function returns the provider \<open>p\<close> that is first in tier order, ties broken by
  registration order, among those that are healthy or unknown with fewer addresses than
  they allow: no such provider has a lower tier than \<open>p\<close>, and none of the tier of \<open>p\<close>
  is registered before \<open>p\<close>. If every provider is healthy with a free place, this is the
  first registered provider of the lowest tier.
\<close>

theorem selection_by_tier:
  assumes "sticky_declines m ip"
    and "map snd (providers m) = us @ p # vs"
    and "available p"
    and "\<forall>q\<in>set (us @ vs). available q \<longrightarrow> tier p \<le> tier q"
    and "\<forall>q\<in>set us. available q \<longrightarrow> tier q \<noteq> tier p"
  shows "determine_failover_provider e m ip uid = Inr (name p)"
proof -
  have "sticky_choice m ip = Inr None"
    using assms(1)
    by (auto simp: sticky_declines_def sticky_choice_def getitem_def split: option.splits)
  moreover have "find available (sort_key tier (map snd (providers m))) = Some p"
    using assms(2-5) by (intro find_sort_key_first [where us = us and vs = vs]) auto
  ultimately show ?thesis
    by (simp add: determine_failover_provider_def best_available_def sorted_providers_def)
qed

theorem selection_by_tier_witness:
  "determine_failover_provider net_all_up after_degrading_check ''10.0.0.1'' ''u'' = Inr ''A''"
  using selection_by_tier [of after_degrading_check "''10.0.0.1''" "[]" provider_a_up
      "[provider_b_full\<lparr>health_status := ''degraded''\<rparr>]" net_all_up "''u''"]
  by (simp add: after_degrading_check_eq session_b_def provider_b_full_def provider_a_up_def
      occupancy_def available_def sticky_declines_def)
section \<open>Channel reports\<close>

lemma min_key_mem: "min_key f b xs \<in> set (b # xs)"
  by (induction xs arbitrary: b) (simp, force)

lemma min_key_le: "x \<in> set (b # xs) \<Longrightarrow> f (min_key f b xs) \<le> f x"
proof (induction xs arbitrary: b x)
  case Nil
  then show ?case by simp
next
  case (Cons a xs)
  let ?b = "if f a < f b then a else b"
  have step: "f (min_key f ?b xs) \<le> f ?b"
    using Cons.IH [where b = ?b and x = ?b] by simp
  from Cons.prems consider "x = b" | "x = a" | "x \<in> set xs" by auto
  then show ?case
  proof cases
    case 1
    with step show ?thesis by (simp split: if_splits)
  next
    case 2
    with step show ?thesis by (simp split: if_splits)
  next
    case 3
    then show ?thesis using Cons.IH [where b = ?b and x = x] by simp
  qed
qed

lemma max_key_mem: "max_key f b xs \<in> set (b # xs)"
  by (induction xs arbitrary: b) (simp, force)

lemma max_key_ge: "x \<in> set (b # xs) \<Longrightarrow> f x \<le> f (max_key f b xs)"
proof (induction xs arbitrary: b x)
  case Nil
  then show ?case by simp
next
  case (Cons a xs)
  let ?b = "if f b < f a then a else b"
  have step: "f ?b \<le> f (max_key f ?b xs)"
    using Cons.IH [where b = ?b and x = ?b] by simp
  from Cons.prems consider "x = b" | "x = a" | "x \<in> set xs" by auto
  then show ?case
  proof cases
    case 1
    with step show ?thesis by (simp split: if_splits)
  next
    case 2
    with step show ?thesis by (simp split: if_splits)
  next
    case 3
    then show ?thesis using Cons.IH [where b = ?b and x = x] by simp
  qed
qed

lemma report_success_rate:
  "ss \<noteq> [] \<Longrightarrow>
   success_rate (channel_health_report n i ss)
     = real (length (filter (\<lambda>s. status s = ''online'') ss)) / real (length ss) * 100"
  by (simp add: channel_health_report_def Let_def split: list.splits)

lemma report_streams: "streams (channel_health_report n i ss) = ss"
  by (simp add: channel_health_report_def Let_def split: list.splits)

lemma report_none_online:
  "filter (\<lambda>s. status s = ''online'') ss = [] \<Longrightarrow>
   best_stream (channel_health_report n i ss) = None
   \<and> worst_stream (channel_health_report n i ss) = None"
  by (simp add: channel_health_report_def Let_def)

lemma report_some_online:
  assumes "filter (\<lambda>s. status s = ''online'') ss = a # rest"
  shows "best_stream (channel_health_report n i ss) = Some (min_key response_time a rest)
         \<and> worst_stream (channel_health_report n i ss) = Some (max_key response_time a rest)"
proof -
  from assms have "ss \<noteq> []" by auto
  with assms show ?thesis by (simp add: channel_health_report_def Let_def)
qed

text \<open>
  C8, as the claim states it, fails: for a channel with one stream online out of two
  the report's success rate is 50, and the number of online streams divided by the
  number of streams is one half.
\<close>

theorem success_rate_counterexample:
  "success_rate (channel_health_report ''News'' ''news'' [stream_up, stream_down]) = 50
   \<and> real (length (filter (\<lambda>s. status s = ''online'') [stream_up, stream_down]))
       / real (length [stream_up, stream_down]) = 1 / 2"
  by (simp add: channel_health_report_def stream_up_def stream_down_def)

text \<open>
  C8, amended. For a non-empty list of streams the success rate is the percentage of
  online streams, 100 times their number divided by the number of all streams. With no
  stream online the best and the worst stream are empty; otherwise they are online
  streams of the list, of the least and of the greatest response time among the online
  streams.
\<close>

theorem channel_report_aggregates:
  assumes "ss \<noteq> []"
  shows "success_rate (channel_health_report n i ss)
           = real (length (filter (\<lambda>s. status s = ''online'') ss)) / real (length ss) * 100
         \<and> (filter (\<lambda>s. status s = ''online'') ss = [] \<longrightarrow>
              best_stream (channel_health_report n i ss) = None
              \<and> worst_stream (channel_health_report n i ss) = None)
         \<and> (filter (\<lambda>s. status s = ''online'') ss \<noteq> [] \<longrightarrow>
              (\<exists>b w. best_stream (channel_health_report n i ss) = Some b
                 \<and> worst_stream (channel_health_report n i ss) = Some w
                 \<and> b \<in> set ss \<and> status b = ''online''
                 \<and> w \<in> set ss \<and> status w = ''online''
                 \<and> (\<forall>s\<in>set ss. status s = ''online'' \<longrightarrow>
                       response_time b \<le> response_time s
                       \<and> response_time s \<le> response_time w)))"
proof (intro conjI impI)
  show "success_rate (channel_health_report n i ss)
          = real (length (filter (\<lambda>s. status s = ''online'') ss)) / real (length ss) * 100"
    using assms by (rule report_success_rate)
next
  assume "filter (\<lambda>s. status s = ''online'') ss = []"
  then show "best_stream (channel_health_report n i ss) = None"
    and "worst_stream (channel_health_report n i ss) = None"
    using report_none_online [of ss n i] by simp_all
next
  let ?on = "filter (\<lambda>s. status s = ''online'') ss"
  assume "?on \<noteq> []"
  then obtain a rest where on: "?on = a # rest" by (cases ?on) auto
  let ?b = "min_key response_time a rest" and ?w = "max_key response_time a rest"
  have b: "?b \<in> set ?on" and w: "?w \<in> set ?on"
    using min_key_mem [of response_time a rest] max_key_mem [of response_time a rest] on
    by simp_all
  have "\<forall>s\<in>set ss. status s = ''online'' \<longrightarrow>
          response_time ?b \<le> response_time s \<and> response_time s \<le> response_time ?w"
  proof (intro ballI impI)
    fix s assume "s \<in> set ss" and "status s = ''online''"
    then have "s \<in> set (a # rest)" using on [symmetric] by simp
    then show "response_time ?b \<le> response_time s \<and> response_time s \<le> response_time ?w"
      using min_key_le [of s a rest response_time] max_key_ge [of s a rest response_time]
      by simp
  qed
  with b w report_some_online [OF on, of n i]
  show "\<exists>b w. best_stream (channel_health_report n i ss) = Some b
          \<and> worst_stream (channel_health_report n i ss) = Some w
          \<and> b \<in> set ss \<and> status b = ''online''
          \<and> w \<in> set ss \<and> status w = ''online''
          \<and> (\<forall>s\<in>set ss. status s = ''online'' \<longrightarrow>
                response_time b \<le> response_time s \<and> response_time s \<le> response_time w)"
    by auto
qed

theorem channel_report_aggregates_witness:
  "success_rate (channel_health_report ''News'' ''news'' [stream_up, stream_down]) = 50
   \<and> best_stream (channel_health_report ''News'' ''news'' [stream_up, stream_down]) = Some stream_up
   \<and> worst_stream (channel_health_report ''News'' ''news'' [stream_up, stream_down]) = Some stream_up"
  using channel_report_aggregates [of "[stream_up, stream_down]" "''News''" "''news''"]
  by (auto simp: stream_up_def stream_down_def)
section \<open>Provider health checks\<close>

lemma check_provider_frame:
  "fst (check_provider e now p)
     = p\<lparr>health_status := health_status (fst (check_provider e now p)),
          last_health_check := Some now\<rparr>"
  by (simp add: check_provider_def split: sum.splits prod.splits)

lemma check_provider_raises:
  "probe_provider e p = Inl err \<Longrightarrow>
   health_status (fst (check_provider e now p)) = ''offline''
   \<and> logged_response_time (snd (check_provider e now p)) = None"
  by (simp add: check_provider_def)

lemma check_provider_response:
  "probe_provider e p = Inr (code, ms) \<Longrightarrow>
   health_status (fst (check_provider e now p)) = classify_response code
   \<and> logged_response_time (snd (check_provider e now p)) = Some ms"
  by (simp add: check_provider_def)

lemma probe_provider_timeout:
  "health_url p = Inr u \<Longrightarrow> 30 < elapsed (http_get e u) \<Longrightarrow>
   probe_provider e p = Inl TimeoutError"
  by (simp add: probe_provider_def request_def)

lemma probe_provider_in_time:
  "health_url p = Inr u \<Longrightarrow> \<not> 30 < elapsed (http_get e u) \<Longrightarrow>
   probe_provider e p =
     (case outcome (http_get e u) of
        Inl err \<Rightarrow> Inl err
      | Inr resp \<Rightarrow> Inr (resp_status resp, int_of_float (elapsed (http_get e u) * 1000)))"
  by (simp add: probe_provider_def request_def split: sum.splits)

lemma probe_provider_no_url:
  "health_url p = Inl err \<Longrightarrow> probe_provider e p = Inl err"
  by (simp add: probe_provider_def)

text \<open>What one check does to a provider, in terms of the answer of the network.\<close>

lemma check_provider_cases:
  "last_health_check (fst (check_provider e now p)) = Some now
   \<and> (case health_url p of
        Inl err \<Rightarrow>
          health_status (fst (check_provider e now p)) = ''offline''
          \<and> logged_response_time (snd (check_provider e now p)) = None
      | Inr u \<Rightarrow>
          if 30 < elapsed (http_get e u) then
            health_status (fst (check_provider e now p)) = ''offline''
            \<and> logged_response_time (snd (check_provider e now p)) = None
          else
            (case outcome (http_get e u) of
               Inl err \<Rightarrow>
                 health_status (fst (check_provider e now p)) = ''offline''
                 \<and> logged_response_time (snd (check_provider e now p)) = None
             | Inr resp \<Rightarrow>
                 health_status (fst (check_provider e now p))
                   = (if resp_status resp = 200 then ''healthy''
                      else if resp_status resp = 502 \<or> resp_status resp = 503
                              \<or> resp_status resp = 504 then ''degraded''
                      else ''offline'')
                 \<and> logged_response_time (snd (check_provider e now p))
                     = Some (int_of_float (elapsed (http_get e u) * 1000))))"
proof -
  have stamp: "last_health_check (fst (check_provider e now p)) = Some now"
    by (simp add: check_provider_def split: sum.splits prod.splits)
  show ?thesis
  proof (cases "health_url p")
    case (Inl err)
    with stamp check_provider_raises [OF probe_provider_no_url [OF Inl], of e now]
    show ?thesis by simp
  next
    case (Inr u)
    show ?thesis
    proof (cases "30 < elapsed (http_get e u)")
      case True
      with stamp Inr check_provider_raises [OF probe_provider_timeout [OF Inr True], of now]
      show ?thesis by simp
    next
      case False
      note pp = probe_provider_in_time [OF Inr False]
      show ?thesis
      proof (cases "outcome (http_get e u)")
        case (Inl err)
        with pp have "probe_provider e p = Inl err" by simp
        from check_provider_raises [OF this, of now] stamp Inr False Inl
        show ?thesis by simp
      next
        case (Inr resp)
        with pp have "probe_provider e p
            = Inr (resp_status resp, int_of_float (elapsed (http_get e u) * 1000))" by simp
        from check_provider_response [OF this, of now] stamp \<open>health_url p = Inr u\<close> False Inr
        show ?thesis by (simp add: classify_response_def)
      qed
    qed
  qed
qed

text \<open>
  C7, as the claim states it, fails: when the probes time out, the log lines, which
  are the only place a response time is written to, hold none. The status and the time
  of the check are set.
\<close>

theorem latency_counterexample:
  "map logged_response_time (snd (health_check_providers net_slow (\<lambda>k. 400) after_second_check))
     = [None, None]
   \<and> map (\<lambda>kp. (health_status (snd kp), last_health_check (snd kp)))
       (providers (fst (health_check_providers net_slow (\<lambda>k. 400) after_second_check)))
     = [(''offline'', Some 400), (''offline'', Some 400)]"
  unfolding after_second_check_eq by code_simp

text \<open>
  C7, amended. A health check leaves the \<open>i\<close>-th provider of the table under its key and
  changes nothing of it but the health status and the time of the last check, which it
  always sets to the time of this check. The status is \<open>healthy\<close> for a response with
  code 200, \<open>degraded\<close> for 502, 503 and 504, \<open>offline\<close> for any other code, for a
  probe that takes more than 30 seconds, for a transport error and when the URL of the
  probe cannot be built. The response time is written to the log, in milliseconds, when
  a response arrives, and nowhere otherwise.
\<close>

theorem provider_health_classification:
  assumes "i < length (providers m)"
  shows "let k = fst (providers m ! i);
             p = snd (providers m ! i);
             p' = snd (providers (fst (health_check_providers e clock m)) ! i);
             line = snd (health_check_providers e clock m) ! i
         in fst (providers (fst (health_check_providers e clock m)) ! i) = k
            \<and> p' = p\<lparr>health_status := health_status p', last_health_check := Some (clock k)\<rparr>
            \<and> last_health_check p' = Some (clock k)
            \<and> (case health_url p of
                 Inl err \<Rightarrow> health_status p' = ''offline'' \<and> logged_response_time line = None
               | Inr u \<Rightarrow>
                   if 30 < elapsed (http_get e u)
                   then health_status p' = ''offline'' \<and> logged_response_time line = None
                   else
                     (case outcome (http_get e u) of
                        Inl err \<Rightarrow>
                          health_status p' = ''offline'' \<and> logged_response_time line = None
                      | Inr resp \<Rightarrow>
                          health_status p'
                            = (if resp_status resp = 200 then ''healthy''
                               else if resp_status resp = 502 \<or> resp_status resp = 503
                                       \<or> resp_status resp = 504 then ''degraded''
                               else ''offline'')
                          \<and> logged_response_time line
                              = Some (int_of_float (elapsed (http_get e u) * 1000))))"
proof -
  let ?k = "fst (providers m ! i)" and ?p = "snd (providers m ! i)"
  have p': "snd (providers (fst (health_check_providers e clock m)) ! i)
              = fst (check_provider e (clock ?k) ?p)"
    and k': "fst (providers (fst (health_check_providers e clock m)) ! i) = ?k"
    and line: "snd (health_check_providers e clock m) ! i = snd (check_provider e (clock ?k) ?p)"
    using assms by (simp_all add: health_check_providers_def)
  show ?thesis
    unfolding Let_def p' k' line
    using check_provider_cases [of e "clock ?k" ?p] check_provider_frame [of e "clock ?k" ?p]
    by simp
qed

theorem provider_health_classification_witness:
  "map (\<lambda>kp. health_status (snd kp))
     (providers (fst (health_check_providers net_b_degraded (\<lambda>k. 300) after_request)))
   = [''healthy'', ''degraded'']
   \<and> logged_response_time (snd (health_check_providers net_b_degraded (\<lambda>k. 300) after_request) ! 1)
     = Some 200"
proof -
  have len: "1 < length (providers after_request)" by code_simp
  have "map (\<lambda>kp. health_status (snd kp))
          (providers (fst (health_check_providers net_b_degraded (\<lambda>k. 300) after_request)))
        = [''healthy'', ''degraded'']"
    by code_simp
  moreover have "logged_response_time
      (snd (health_check_providers net_b_degraded (\<lambda>k. 300) after_request) ! 1)
        = Some (int_of_float (elapsed (http_get net_b_degraded ''http://b/list'') * 1000))"
  proof -
    have u: "health_url (snd (providers after_request ! 1)) = Inr ''http://b/list''"
      by code_simp
    have late: "\<not> 30 < elapsed (http_get net_b_degraded ''http://b/list'')"
      by (simp add: net_b_degraded_def status_reply_def)
    have out: "outcome (http_get net_b_degraded ''http://b/list'')
                 = outcome (status_reply 503)"
      by (simp add: net_b_degraded_def)
    from provider_health_classification [OF len, of net_b_degraded "\<lambda>k. 300"] u late out
    show ?thesis by (simp add: Let_def status_reply_def)
  qed
  moreover have "int_of_float (elapsed (http_get net_b_degraded ''http://b/list'') * 1000) = 200"
    by (simp add: net_b_degraded_def status_reply_def int_of_float_def)
  ultimately show ?thesis by simp
qed
section \<open>Stream probes\<close>

lemma probe_failure_status:
  "status (probe_failure c u s n err) = ''timeout'' \<or> status (probe_failure c u s n err) = ''error''"
  by (cases err) (simp_all add: probe_failure_def stream_health_def)

lemma classified_probe_failure: "classified (probe_failure c u s n err)"
  using probe_failure_status [of c u s n err] by (auto simp: classified_def)

text \<open>The function returns a classified result at every depth: nothing escapes its handlers.\<close>

lemma check_stream_health_returns:
  "\<exists>h. outcome_of (check_stream_health depth pe c t u) = Inr h \<and> classified h"
proof (induction depth arbitrary: t u)
  case 0
  show ?case
    by (subst check_stream_health.simps)
       (auto simp: Let_def classified_probe_failure split: sum.splits option.splits;
        simp add: classified_def stream_health_def)
next
  case (Suc d)
  have no_raise: "outcome_of (check_stream_health d pe c t' u') \<noteq> Inl err" for t' u' err
    using Suc.IH [of t' u'] by auto
  have cls: "outcome_of (check_stream_health d pe c t' u') = Inr h \<Longrightarrow> classified h" for t' u' h
    using Suc.IH [of t' u'] by auto
  show ?case
    by (subst check_stream_health.simps)
       (auto simp: Let_def classified_probe_failure no_raise
             split: sum.splits option.splits dest: cls;
        simp add: classified_def stream_health_def)
qed

lemma check_stream_health_no_raise:
  "outcome_of (check_stream_health depth pe c t u) \<noteq> Inl err"
  using check_stream_health_returns [of depth pe c t u] by auto

lemma check_stream_health_malformed:
  assumes "malformed pe u"
  shows "\<exists>h. check_stream_health depth pe c t u
              = \<lparr>outcome_of = Inr h, requested = [], finished = t\<rparr> \<and> status h = ''error''"
  using assms
  by (subst check_stream_health.simps)
     (auto simp: malformed_def probe_failure_def stream_health_def
           split: sum.splits exn.splits)

lemma check_stream_health_timeout:
  assumes "session c = Some tmo"
    and "urlparse pe u = Inr (sch, loc)" and "sch \<noteq> []" and "loc \<noteq> []"
    and "timeout_total tmo < elapsed (http_head pe u)"
  shows "check_stream_health depth pe c t u
         = \<lparr>outcome_of = Inr ((stream_health u ''timeout'' (t + timeout_total tmo))
                               \<lparr>response_time := timeout c,
                                error_message := Some ''Request timeout''\<rparr>),
            requested = [u], finished = t + timeout_total tmo\<rparr>"
  using assms
  by (subst check_stream_health.simps)
     (simp add: request_def duration_def probe_failure_def)

lemma redirects_toD:
  assumes "redirects_to pe c u v"
  shows "\<exists>parsed tmo response.
           urlparse pe u = Inr parsed \<and> fst parsed \<noteq> [] \<and> snd parsed \<noteq> []
           \<and> session c = Some tmo
           \<and> request (Some (timeout_total tmo)) (http_head pe u) = Inr response
           \<and> resp_status response \<noteq> 200 \<and> redirect_target response = Some v"
proof (cases "urlparse pe u")
  case (Inl err)
  with assms show ?thesis by (simp add: redirects_to_def)
next
  case parsed: (Inr parsed)
  show ?thesis
  proof (cases "session c")
    case None
    with assms parsed show ?thesis by (simp add: redirects_to_def)
  next
    case (Some tmo)
    show ?thesis
    proof (cases "request (Some (timeout_total tmo)) (http_head pe u)")
      case (Inl err)
      with assms parsed Some show ?thesis by (simp add: redirects_to_def)
    next
      case (Inr response)
      with assms parsed Some show ?thesis by (simp add: redirects_to_def)
    qed
  qed
qed

lemma requested_cons:
  "Y = X\<lparr>requested := bl @ requested X\<rparr> \<Longrightarrow>
   Y\<lparr>requested := u # requested Y\<rparr> = X\<lparr>requested := (u # bl) @ requested X\<rparr>"
  by simp

text \<open>A redirect that the function follows: the result is that of probing the target.\<close>

lemma check_stream_health_follow:
  assumes "redirects_to pe c u v"
  shows "\<exists>t'. check_stream_health (Suc d) pe c t u
              = (check_stream_health d pe c t' v)
                  \<lparr>requested := u # requested (check_stream_health d pe c t' v)\<rparr>"
proof -
  from redirects_toD [OF assms] obtain parsed tmo response where
    p: "urlparse pe u = Inr parsed" "fst parsed \<noteq> []" "snd parsed \<noteq> []"
    and s: "session c = Some tmo"
    and r: "request (Some (timeout_total tmo)) (http_head pe u) = Inr response"
           "resp_status response \<noteq> 200" "redirect_target response = Some v"
    by blast
  let ?t' = "t + duration (Some (timeout_total tmo)) (http_head pe u)"
  let ?inner = "check_stream_health d pe c ?t' v"
  obtain h where h: "outcome_of ?inner = Inr h"
    using check_stream_health_returns [of d pe c ?t' v] by auto
  have "check_stream_health (Suc d) pe c t u = ?inner\<lparr>requested := u # requested ?inner\<rparr>"
    using p s r h by (subst check_stream_health.simps) (simp add: Let_def)
  then show ?thesis by blast
qed

lemma redirect_chain_followed:
  assumes "redirect_chain pe c u vs" and "length vs \<le> depth"
  shows "\<exists>t'. check_stream_health depth pe c t u
              = (check_stream_health (depth - length vs) pe c t' (last (u # vs)))
                  \<lparr>requested := butlast (u # vs)
                     @ requested (check_stream_health (depth - length vs) pe c t' (last (u # vs)))\<rparr>"
  using assms
proof (induction vs arbitrary: u depth t)
  case Nil
  show ?case by (intro exI [of _ t]) simp
next
  case (Cons v vs)
  from Cons.prems obtain d where d: "depth = Suc d" and len: "length vs \<le> d"
    by (cases depth) auto
  from Cons.prems have first: "redirects_to pe c u v" and rest: "redirect_chain pe c v vs"
    by auto
  from check_stream_health_follow [OF first, of d t] obtain t1 where
    t1: "check_stream_health (Suc d) pe c t u
           = (check_stream_health d pe c t1 v)
               \<lparr>requested := u # requested (check_stream_health d pe c t1 v)\<rparr>"
    by blast
  from Cons.IH [OF rest len, of t1] obtain t2 where
    t2: "check_stream_health d pe c t1 v
           = (check_stream_health (d - length vs) pe c t2 (last (v # vs)))
               \<lparr>requested := butlast (v # vs)
                  @ requested (check_stream_health (d - length vs) pe c t2 (last (v # vs)))\<rparr>"
    by blast
  have "check_stream_health (Suc d) pe c t u
          = (check_stream_health (d - length vs) pe c t2 (last (v # vs)))
              \<lparr>requested := (u # butlast (v # vs))
                 @ requested (check_stream_health (d - length vs) pe c t2 (last (v # vs)))\<rparr>"
    unfolding t1 using t2 by (rule requested_cons)
  then show ?case
    unfolding d by (intro exI [of _ t2]) simp
qed

lemma requested_bounded: "length (requested (check_stream_health depth pe c t u)) \<le> Suc depth"
proof (induction depth arbitrary: t u)
  case 0
  show ?case
    by (subst check_stream_health.simps)
       (auto simp: Let_def split: sum.splits option.splits)
next
  case (Suc d)
  have inner: "length (requested (check_stream_health d pe c t' u')) \<le> Suc d" for t' u'
    using Suc.IH [of t' u'] .
  show ?case
    using inner
    by (subst check_stream_health.simps)
       (auto simp: Let_def split: sum.splits option.splits)
qed

text \<open>
  C3, as the claim states it, fails: for a URL that redirects to a second URL, which
  redirects to a third, the probe sends three requests, following two hops, and
  returns the result of probing the third URL.
\<close>

theorem one_hop_counterexample:
  "requested (check_stream_health 100 probe_net checker 0 ''http://a/s'')
     = [''http://a/s'', ''http://b/s'', ''http://c/s'']
   \<and> outcome_of (check_stream_health 100 probe_net checker 0 ''http://a/s'')
     = Inr (stream_up\<lparr>timestamp := 2 / 5\<rparr>)"
  by code_simp

text \<open>
  C3, amended. When a probe is answered by a redirect (301, 302, 307 or 308 with a
  non-empty Location), the function probes the target by calling itself, and so again
  for every further redirect: along a chain of redirects from \<open>u\<close> through \<open>vs\<close> that is
  no longer than the interpreter's remaining depth, every URL of the chain is requested
  in order and the result is that of probing the last URL. The number of hops is
  bounded by that depth only: a probe sends at most \<open>depth + 1\<close> requests.
\<close>

theorem redirects_followed_along_chain:
  assumes "redirect_chain pe c u vs" and "length vs \<le> depth"
  shows "(\<exists>t'. outcome_of (check_stream_health depth pe c t u)
                 = outcome_of (check_stream_health (depth - length vs) pe c t' (last (u # vs)))
               \<and> requested (check_stream_health depth pe c t u)
                 = butlast (u # vs)
                   @ requested (check_stream_health (depth - length vs) pe c t' (last (u # vs))))
         \<and> length (requested (check_stream_health depth pe c t u)) \<le> Suc depth"
proof
  from redirect_chain_followed [OF assms, of t] obtain t' where
    "check_stream_health depth pe c t u
       = (check_stream_health (depth - length vs) pe c t' (last (u # vs)))
           \<lparr>requested := butlast (u # vs)
              @ requested (check_stream_health (depth - length vs) pe c t' (last (u # vs)))\<rparr>"
    by blast
  then have "outcome_of (check_stream_health depth pe c t u)
               = outcome_of (check_stream_health (depth - length vs) pe c t' (last (u # vs)))
             \<and> requested (check_stream_health depth pe c t u)
               = butlast (u # vs)
                 @ requested (check_stream_health (depth - length vs) pe c t' (last (u # vs)))"
    by (metis probe_run.select_convs(1) probe_run.select_convs(2) probe_run.surjective
        probe_run.update_convs(2))
  then show "\<exists>t'. outcome_of (check_stream_health depth pe c t u)
                 = outcome_of (check_stream_health (depth - length vs) pe c t' (last (u # vs)))
               \<and> requested (check_stream_health depth pe c t u)
                 = butlast (u # vs)
                   @ requested (check_stream_health (depth - length vs) pe c t' (last (u # vs)))"
    by blast
next
  show "length (requested (check_stream_health depth pe c t u)) \<le> Suc depth"
    by (rule requested_bounded)
qed

lemma probe_net_chain:
  "redirect_chain probe_net checker ''http://a/s'' [''http://b/s'', ''http://c/s'']"
  by (simp add: redirects_to_def probe_net_def checker_def aenter_def new_checker_def
      request_def redirect_target_def nonempty_url_def startswith_def head_reply_def)

theorem redirects_followed_along_chain_witness:
  "take 2 (requested (check_stream_health 100 probe_net checker 0 ''http://a/s''))
     = [''http://a/s'', ''http://b/s'']"
  using redirects_followed_along_chain [OF probe_net_chain, of 100 0]
  by auto

section \<open>Probing never raises\<close>

lemma map_filter_all_Inr:
  "\<forall>r\<in>set rs. \<exists>h. r = Inr h \<Longrightarrow>
   map Inr (List.map_filter (\<lambda>r. case r of Inr h \<Rightarrow> Some h | Inl err \<Rightarrow> None) rs) = rs"
  by (induction rs) (auto simp: List.map_filter_simps)

lemma channel_report_streams:
  "map Inr (streams (check_channel_health depth pe c now ch))
     = map (\<lambda>u. outcome_of (check_stream_health depth pe c now u))
         (List.map_filter nonempty_url (ch_streams ch))"
proof (cases "ch_streams ch = []")
  case True
  then show ?thesis
    by (simp add: check_channel_health_def report_streams List.map_filter_simps)
next
  case False
  have "\<forall>r\<in>set (map (\<lambda>u. outcome_of (check_stream_health depth pe c now u))
                    (List.map_filter nonempty_url (ch_streams ch))). \<exists>h. r = Inr h"
    using check_stream_health_returns [of depth pe c now] by auto
  from map_filter_all_Inr [OF this] False show ?thesis
    by (simp add: check_channel_health_def report_streams Let_def)
qed

lemma channel_report_rate:
  assumes "streams (check_channel_health depth pe c now ch) \<noteq> []"
  shows "success_rate (check_channel_health depth pe c now ch)
         = real (length (filter (\<lambda>s. status s = ''online'')
                           (streams (check_channel_health depth pe c now ch))))
           / real (length (List.map_filter nonempty_url (ch_streams ch))) * 100"
proof -
  have len: "length (streams (check_channel_health depth pe c now ch))
               = length (List.map_filter nonempty_url (ch_streams ch))"
    using arg_cong [OF channel_report_streams [of depth pe c now ch], of length] by simp
  have "\<exists>n i ss. check_channel_health depth pe c now ch = channel_health_report n i ss"
    unfolding check_channel_health_def Let_def by (cases "ch_streams ch = []") auto
  then obtain n i ss where r: "check_channel_health depth pe c now ch = channel_health_report n i ss"
    by blast
  with assms have "ss \<noteq> []" by (simp add: report_streams)
  from report_success_rate [OF this, of n i] len r show ?thesis
    by (simp add: report_streams)
qed

text \<open>
  C9. At every depth of the interpreter's stack, in every environment and for every
  URL, \<open>check_stream_health\<close> returns a result, with one of the four statuses, and
  raises nothing; for a malformed URL the status is \<open>error\<close>. The report of a channel
  holds the result of every probe that was started, failed or not, in the order of the
  streams, and its success rate is computed over all of them.
\<close>

theorem probing_is_total:
  "(\<exists>h. outcome_of (check_stream_health depth pe c t u) = Inr h
        \<and> classified h
        \<and> (malformed pe u \<longrightarrow> status h = ''error''))
   \<and> map Inr (streams (check_channel_health depth pe c now ch))
       = map (\<lambda>u. outcome_of (check_stream_health depth pe c now u))
           (List.map_filter nonempty_url (ch_streams ch))
   \<and> (streams (check_channel_health depth pe c now ch) \<noteq> [] \<longrightarrow>
        success_rate (check_channel_health depth pe c now ch)
        = real (length (filter (\<lambda>s. status s = ''online'')
                          (streams (check_channel_health depth pe c now ch))))
          / real (length (List.map_filter nonempty_url (ch_streams ch))) * 100)"
proof (intro conjI impI)
  show "\<exists>h. outcome_of (check_stream_health depth pe c t u) = Inr h
          \<and> classified h \<and> (malformed pe u \<longrightarrow> status h = ''error'')"
  proof (cases "malformed pe u")
    case True
    from check_stream_health_malformed [OF True, of depth c t] obtain h where
      "outcome_of (check_stream_health depth pe c t u) = Inr h" and "status h = ''error''"
      by auto
    then show ?thesis by (auto simp: classified_def)
  next
    case False
    with check_stream_health_returns [of depth pe c t u] show ?thesis by auto
  qed
next
  show "map Inr (streams (check_channel_health depth pe c now ch))
          = map (\<lambda>u. outcome_of (check_stream_health depth pe c now u))
              (List.map_filter nonempty_url (ch_streams ch))"
    by (rule channel_report_streams)
next
  assume "streams (check_channel_health depth pe c now ch) \<noteq> []"
  then show "success_rate (check_channel_health depth pe c now ch)
        = real (length (filter (\<lambda>s. status s = ''online'')
                          (streams (check_channel_health depth pe c now ch))))
          / real (length (List.map_filter nonempty_url (ch_streams ch))) * 100"
    by (rule channel_report_rate)
qed

lemma channel_news_statuses:
  "map status (streams (check_channel_health 100 probe_net checker 0 channel_news))
     = [''online'', ''offline'', ''timeout'', ''error'']"
  by code_simp

theorem probing_is_total_witness:
  "malformed probe_net ''nowhere''
   \<and> (\<exists>h. outcome_of (check_stream_health 100 probe_net checker 0 ''nowhere'') = Inr h
          \<and> status h = ''error'')
   \<and> success_rate (check_channel_health 100 probe_net checker 0 channel_news) = 25"
proof -
  have m: "malformed probe_net ''nowhere''"
    by (simp add: malformed_def probe_net_def startswith_def)
  have n: "List.map_filter nonempty_url (ch_streams channel_news)
             = [''http://c/s'', ''http://d/s'', ''http://slow/s'', ''nowhere'']"
    by (simp add: channel_news_def List.map_filter_simps nonempty_url_def)
  have s: "map status (streams (check_channel_health 100 probe_net checker 0 channel_news))
             = [''online'', ''offline'', ''timeout'', ''error'']"
    by (rule channel_news_statuses)
  then have ne: "streams (check_channel_health 100 probe_net checker 0 channel_news) \<noteq> []"
    by auto
  have "length (filter (\<lambda>s. status s = ''online'')
          (streams (check_channel_health 100 probe_net checker 0 channel_news)))
        = length (filter (\<lambda>x. x = ''online'')
            (map status (streams (check_channel_health 100 probe_net checker 0 channel_news))))"
    by (simp add: filter_map comp_def)
  also have "\<dots> = 1" unfolding s by simp
  finally have on: "length (filter (\<lambda>s. status s = ''online'')
          (streams (check_channel_health 100 probe_net checker 0 channel_news))) = 1" .
  from probing_is_total [of 100 probe_net checker 0 "''nowhere''" 0 channel_news] m ne on n
  show ?thesis by auto
qed
section \<open>Timeouts\<close>

lemma failover_attempt_timeout:
  assumes "stream_url_for e p cid = Inr (Some su)" and "su \<noteq> []"
    and "10 < elapsed (http_get e su)"
  shows "failover_attempt e ip uid cid (k, p) m = (m, Inl TimeoutError)"
  using assms by (simp add: failover_attempt_def nonempty_url_def request_def)

text \<open>
  C6, as the claim states it, fails: the health probe of a provider that exceeds its
  budget of 30 seconds is classified as \<open>offline\<close>, not as \<open>timeout\<close>.
\<close>

theorem timeout_counterexample:
  "health_url provider_a_up = Inr ''http://a/list''
   \<and> 30 < elapsed (http_get net_slow ''http://a/list'')
   \<and> health_status (fst (check_provider net_slow 400 provider_a_up)) = ''offline''
   \<and> health_status (fst (check_provider net_slow 400 provider_a_up)) \<noteq> ''timeout''"
  by (simp add: health_url_def truthy_config_def provider_a_up_def net_slow_def ok_reply_def
      check_provider_def probe_provider_def request_def)

text \<open>
  C6, amended. Three operations carry an explicit timeout, and one that exceeds it ends
  at once with a classification. The session of the stream checker has the checker's
  timeout as its total timeout, and a stream probe of a well-formed URL that exceeds it
  ends when the budget is used up, with status \<open>timeout\<close>. A provider health probe that
  exceeds 30 seconds sets the provider \<open>offline\<close>. An escalation fetch that exceeds 10
  seconds raises the timeout inside the loop's \<^verbatim>\<open>try\<close>, which makes the candidate a
  failed one. (The playlist fetch and the first fetch of a request are made with the
  client's default and are not covered.)
\<close>

theorem explicit_timeouts:
  "session (aenter c) = Some \<lparr>timeout_total = timeout c, timeout_connect = 5\<rparr>
   \<and> (session c = Some tmo \<and> urlparse pe u = Inr (sch, loc) \<and> sch \<noteq> [] \<and> loc \<noteq> []
        \<and> timeout_total tmo < elapsed (http_head pe u) \<longrightarrow>
      check_stream_health depth pe c t u
        = \<lparr>outcome_of = Inr ((stream_health u ''timeout'' (t + timeout_total tmo))
                              \<lparr>response_time := timeout c,
                               error_message := Some ''Request timeout''\<rparr>),
           requested = [u], finished = t + timeout_total tmo\<rparr>)
   \<and> (health_url p = Inr hu \<and> 30 < elapsed (http_get e hu) \<longrightarrow>
        health_status (fst (check_provider e now p)) = ''offline'')
   \<and> (stream_url_for e p cid = Inr (Some su) \<and> su \<noteq> [] \<and> 10 < elapsed (http_get e su) \<longrightarrow>
        failover_attempt e ip uid cid (k, p) m = (m, Inl TimeoutError))"
proof (intro conjI impI)
  show "session (aenter c) = Some \<lparr>timeout_total = timeout c, timeout_connect = 5\<rparr>"
    by (simp add: aenter_def)
next
  assume "session c = Some tmo \<and> urlparse pe u = Inr (sch, loc) \<and> sch \<noteq> [] \<and> loc \<noteq> []
          \<and> timeout_total tmo < elapsed (http_head pe u)"
  then show "check_stream_health depth pe c t u
        = \<lparr>outcome_of = Inr ((stream_health u ''timeout'' (t + timeout_total tmo))
                              \<lparr>response_time := timeout c,
                               error_message := Some ''Request timeout''\<rparr>),
           requested = [u], finished = t + timeout_total tmo\<rparr>"
    using check_stream_health_timeout [of c tmo pe u sch loc depth t] by blast
next
  assume "health_url p = Inr hu \<and> 30 < elapsed (http_get e hu)"
  then have "probe_provider e p = Inl TimeoutError"
    using probe_provider_timeout [of p hu e] by blast
  then show "health_status (fst (check_provider e now p)) = ''offline''"
    using check_provider_raises [of e p TimeoutError now] by blast
next
  assume "stream_url_for e p cid = Inr (Some su) \<and> su \<noteq> [] \<and> 10 < elapsed (http_get e su)"
  then show "failover_attempt e ip uid cid (k, p) m = (m, Inl TimeoutError)"
    using failover_attempt_timeout [of e p cid su ip uid k m] by blast
qed

theorem explicit_timeouts_witness:
  "status (projr (outcome_of (check_stream_health 100 probe_net checker 0 ''http://slow/s'')))
     = ''timeout''
   \<and> finished (check_stream_health 100 probe_net checker 0 ''http://slow/s'') = 10
   \<and> health_status (fst (check_provider net_slow 400 provider_a_up)) = ''offline''
   \<and> failover_attempt net_slow ''10.0.0.1'' ''u'' ''news'' (''A'', provider_a_up) after_request
       = (after_request, Inl TimeoutError)"
proof -
  have c: "session checker = Some \<lparr>timeout_total = 10, timeout_connect = 5\<rparr>"
    by (simp add: checker_def aenter_def new_checker_def)
  have u: "urlparse probe_net ''http://slow/s'' = Inr (''http'', ''slow'')"
    by (simp add: probe_net_def startswith_def)
  have s: "10 < elapsed (http_head probe_net ''http://slow/s'')"
    by (simp add: probe_net_def head_reply_def)
  have h: "health_url provider_a_up = Inr ''http://a/list''"
    by (simp add: health_url_def truthy_config_def provider_a_up_def)
  have g: "30 < elapsed (http_get net_slow ''http://a/list'')"
          "10 < elapsed (http_get net_slow ''http://b/news.ts'')"
    by (simp_all add: net_slow_def ok_reply_def)
  have r: "stream_url_for net_slow provider_a_up ''news'' = Inr (Some ''http://b/news.ts'')"
    by code_simp
  from explicit_timeouts [of checker "\<lparr>timeout_total = 10, timeout_connect = 5\<rparr>" probe_net
      "''http://slow/s''" "''http''" "''slow''" 100 0 provider_a_up "''http://a/list''" net_slow
      400 "''news''" "''http://b/news.ts''" "''10.0.0.1''" "''u''" "''A''" after_request]
    c u s h g r
  show ?thesis by (simp add: stream_health_def)
qed
section \<open>Escalation\<close>

lemma failover_attempt_fails_state:
  "attempt_fails e ip uid cid kp m \<Longrightarrow> fst (failover_attempt e ip uid cid kp m) = m"
  by (auto simp: attempt_fails_def failover_attempt_def Let_def
           split: sum.splits option.splits if_splits)

lemma failover_loop_all_fail:
  "\<forall>kp\<in>set ps. attempt_fails e ip uid cid kp m \<Longrightarrow>
   failover_loop e ip uid cid ps m = (m, text_response 503 ''All failover providers failed'', ps)"
proof (induction ps)
  case Nil
  show ?case by simp
next
  case (Cons kp ps)
  then have f: "attempt_fails e ip uid cid kp m" and rest: "\<forall>kp\<in>set ps. attempt_fails e ip uid cid kp m"
    by auto
  obtain m' r where a: "failover_attempt e ip uid cid kp m = (m', r)"
    by (cases "failover_attempt e ip uid cid kp m")
  with failover_attempt_fails_state [OF f] have m': "m' = m" by simp
  from f a have "r \<noteq> Inr (Some w)" for w by (auto simp: attempt_fails_def)
  with a m' Cons.IH [OF rest] show ?case
    by (auto split: sum.splits option.splits)
qed

lemma failover_loop_tried_prefix:
  "\<exists>rest. ps = snd (snd (failover_loop e ip uid cid ps m)) @ rest"
proof (induction ps arbitrary: m)
  case Nil
  show ?case by simp
next
  case (Cons kp ps)
  obtain m' r where a: "failover_attempt e ip uid cid kp m = (m', r)"
    by (cases "failover_attempt e ip uid cid kp m")
  from Cons.IH [of m'] obtain rest where "ps = snd (snd (failover_loop e ip uid cid ps m')) @ rest"
    by blast
  with a show ?case
    by (auto split: sum.splits option.splits prod.splits)
qed

lemma candidates_iff:
  "kp \<in> set (candidates m min_tier) \<longleftrightarrow>
     kp \<in> set (providers m) \<and> min_tier \<le> tier (snd kp) \<and> health_status (snd kp) \<noteq> ''offline''"
  by (auto simp: candidates_def)

text \<open>
  C5. The candidates of \<open>try_failover_stream\<close> are exactly the providers of the table
  with a tier of at least \<open>min_tier\<close> and a health status other than \<open>offline\<close>. The
  providers it tries are a beginning of the candidate list sorted by tier, so they are
  tried in ascending tier order. The function returns a response in every case; if every
  candidate fails (for want of a URL, by a status other than 200 or by an exception),
  which includes the case of no candidates, the response has status 503, every
  candidate was tried and the state is unchanged.
\<close>

theorem escalation_order_and_exhaustion:
  "(\<forall>kp. kp \<in> set (candidates m min_tier) \<longleftrightarrow>
          kp \<in> set (providers m) \<and> min_tier \<le> tier (snd kp)
          \<and> health_status (snd kp) \<noteq> ''offline'')
   \<and> (\<exists>rest. sort_key (\<lambda>kp. tier (snd kp)) (candidates m min_tier)
               = snd (snd (try_failover_stream e ip uid cid min_tier m)) @ rest)
   \<and> sorted (map (\<lambda>kp. tier (snd kp)) (snd (snd (try_failover_stream e ip uid cid min_tier m))))
   \<and> ((\<forall>kp\<in>set (candidates m min_tier). attempt_fails e ip uid cid kp m) \<longrightarrow>
        web_status (fst (snd (try_failover_stream e ip uid cid min_tier m))) = 503
        \<and> fst (try_failover_stream e ip uid cid min_tier m) = m
        \<and> snd (snd (try_failover_stream e ip uid cid min_tier m))
            = sort_key (\<lambda>kp. tier (snd kp)) (candidates m min_tier))"
proof (intro conjI impI allI)
  fix kp
  show "kp \<in> set (candidates m min_tier) \<longleftrightarrow>
          kp \<in> set (providers m) \<and> min_tier \<le> tier (snd kp)
          \<and> health_status (snd kp) \<noteq> ''offline''"
    by (rule candidates_iff)
next
  show prefix: "\<exists>rest. sort_key (\<lambda>kp. tier (snd kp)) (candidates m min_tier)
               = snd (snd (try_failover_stream e ip uid cid min_tier m)) @ rest"
  proof (cases "candidates m min_tier = []")
    case True
    then show ?thesis by (simp add: try_failover_stream_def)
  next
    case False
    with failover_loop_tried_prefix
      [of "sort_key (\<lambda>kp. tier (snd kp)) (candidates m min_tier)" e ip uid cid m]
    show ?thesis by (simp add: try_failover_stream_def)
  qed
  then obtain rest where
    "sort_key (\<lambda>kp. tier (snd kp)) (candidates m min_tier)
       = snd (snd (try_failover_stream e ip uid cid min_tier m)) @ rest"
    by blast
  moreover have "sorted (map (\<lambda>kp. tier (snd kp))
                   (sort_key (\<lambda>kp. tier (snd kp)) (candidates m min_tier)))"
    by simp
  ultimately show "sorted (map (\<lambda>kp. tier (snd kp))
                     (snd (snd (try_failover_stream e ip uid cid min_tier m))))"
    by (simp add: sorted_append)
next
  assume all: "\<forall>kp\<in>set (candidates m min_tier). attempt_fails e ip uid cid kp m"
  then have "\<forall>kp\<in>set (sort_key (\<lambda>kp. tier (snd kp)) (candidates m min_tier)).
               attempt_fails e ip uid cid kp m"
    by simp
  from failover_loop_all_fail [OF this]
  have r: "try_failover_stream e ip uid cid min_tier m
        = (if candidates m min_tier = [] then (m, text_response 503 ''No available providers'', [])
           else (m, text_response 503 ''All failover providers failed'',
                 sort_key (\<lambda>kp. tier (snd kp)) (candidates m min_tier)))"
    by (simp add: try_failover_stream_def)
  show "web_status (fst (snd (try_failover_stream e ip uid cid min_tier m))) = 503"
    and "fst (try_failover_stream e ip uid cid min_tier m) = m"
    and "snd (snd (try_failover_stream e ip uid cid min_tier m))
           = sort_key (\<lambda>kp. tier (snd kp)) (candidates m min_tier)"
    unfolding r by (simp_all add: text_response_def)
qed

lemma slow_attempts_fail:
  "attempt_fails net_slow ''10.0.0.1'' ''u'' ''news'' (''A'', provider_a_up) after_second_check"
  "attempt_fails net_slow ''10.0.0.1'' ''u'' ''news'' (''B'', provider_b_full) after_second_check"
  unfolding after_second_check_eq by code_simp+

theorem escalation_order_and_exhaustion_witness:
  "web_status (fst (snd (try_failover_stream net_slow ''10.0.0.1'' ''u'' ''news'' 0
                           after_second_check))) = 503
   \<and> map fst (snd (snd (try_failover_stream net_slow ''10.0.0.1'' ''u'' ''news'' 0
                          after_second_check))) = [''A'', ''B'']"
proof -
  have c: "candidates after_second_check 0 = [(''A'', provider_a_up), (''B'', provider_b_full)]"
    by (simp add: candidates_def after_second_check_eq provider_a_up_def provider_b_full_def)
  have s: "sort_key (\<lambda>kp. tier (snd kp)) [(''A'', provider_a_up), (''B'', provider_b_full)]
             = [(''A'', provider_a_up), (''B'', provider_b_full)]"
    by (simp add: provider_a_up_def provider_b_full_def)
  from escalation_order_and_exhaustion [of after_second_check 0 net_slow "''10.0.0.1''" "''u''" "''news''"]
    slow_attempts_fail
  show ?thesis unfolding c s by simp
qed

section \<open>Occupancy after an escalation\<close>

lemma reachable_after_escalation: "reachable after_escalation"
  unfolding after_escalation_def by (intro reachable.stream reachable.start)

text \<open>
  C2 does not hold of the code. One request on the default configuration, with the
  primary provider answering 503 and the secondary provider working, leaves the address
  in the sets of both providers, with a session that names the secondary provider. When
  the session expires the address is removed from the secondary provider's set only and
  stays in the primary provider's set, which no operation empties.
\<close>

theorem double_occupancy_reachable:
  "reachable after_escalation
   \<and> map (\<lambda>kp. (fst kp, active_ips (snd kp))) (providers after_escalation)
       = [(''Primary_Provider'', {''203.0.113.7''}),
          (''Secondary_Provider'', {''203.0.113.7''}),
          (''Tertiary_Provider'', {})]
   \<and> map (\<lambda>ks. (fst ks, provider_name (snd ks))) (active_sessions after_escalation)
       = [(''203.0.113.7'', ''Secondary_Provider'')]
   \<and> map (\<lambda>kp. (fst kp, active_ips (snd kp)))
         (providers (cleanup_expired_sessions (1000 + timedelta_minutes 31) after_escalation))
       = [(''Primary_Provider'', {''203.0.113.7''}),
          (''Secondary_Provider'', {}),
          (''Tertiary_Provider'', {})]
   \<and> active_sessions (cleanup_expired_sessions (1000 + timedelta_minutes 31) after_escalation) = []"
proof -
  have "map (\<lambda>kp. (fst kp, active_ips (snd kp))) (providers after_escalation)
       = [(''Primary_Provider'', {''203.0.113.7''}),
          (''Secondary_Provider'', {''203.0.113.7''}),
          (''Tertiary_Provider'', {})]"
    by code_simp
  moreover have "map (\<lambda>ks. (fst ks, provider_name (snd ks))) (active_sessions after_escalation)
       = [(''203.0.113.7'', ''Secondary_Provider'')]"
    by code_simp
  moreover have "map (\<lambda>kp. (fst kp, active_ips (snd kp)))
         (providers (cleanup_expired_sessions (1000 + timedelta_minutes 31) after_escalation))
       = [(''Primary_Provider'', {''203.0.113.7''}),
          (''Secondary_Provider'', {}),
          (''Tertiary_Provider'', {})]"
    by code_simp
  moreover have "active_sessions
      (cleanup_expired_sessions (1000 + timedelta_minutes 31) after_escalation) = []"
    by code_simp
  ultimately show ?thesis using reachable_after_escalation by simp
qed

end
